theory Spec2Isabelle
  imports Complex_Main "HOL-Library.Sublist"
begin

section \<open>Python strings\<close>

text \<open>
  A Python \<open>str\<close> is a sequence of Unicode code points, and \<open>len\<close>, slicing and
  \<open>in\<close> count code points. A string is therefore a list of code points (natural
  numbers); \<open>u ''abc''\<close> is the string of an ASCII literal.
\<close>

type_synonym pystr = "nat list"

abbreviation u :: "string \<Rightarrow> pystr" where
  "u s \<equiv> map of_char s"

text \<open>
  \<open>str.isspace\<close> on one code point, which is also what \<open>\s\<close> matches in a \<open>str\<close>
  pattern, what \<open>str.strip()\<close> strips and what \<open>str.split()\<close> splits on.
\<close>

definition isspace :: "nat \<Rightarrow> bool" where
  "isspace c \<longleftrightarrow>
     (9 \<le> c \<and> c \<le> 13) \<or> (28 \<le> c \<and> c \<le> 32) \<or> c = 133 \<or> c = 160 \<or> c = 5760
     \<or> (8192 \<le> c \<and> c \<le> 8202) \<or> c = 8232 \<or> c = 8233 \<or> c = 8239 \<or> c = 8287
     \<or> c = 12288"

definition strip :: "pystr \<Rightarrow> pystr" where
  "strip s = rev (dropWhile isspace (rev (dropWhile isspace s)))"

text \<open>\<open>s.split()\<close>: the maximal runs of characters that are not whitespace.\<close>

fun split_words :: "pystr \<Rightarrow> pystr \<Rightarrow> pystr list" where
  "split_words cur [] = (if cur = [] then [] else [cur])"
| "split_words cur (c # cs) =
     (if isspace c then (if cur = [] then split_words [] cs else cur # split_words [] cs)
      else split_words (cur @ [c]) cs)"

definition split_ws :: "pystr \<Rightarrow> pystr list" where
  "split_ws s = split_words [] s"

text \<open>\<open>s.split(sep)\<close> for a separator of one character.\<close>

fun split_acc :: "nat \<Rightarrow> pystr \<Rightarrow> pystr \<Rightarrow> pystr list" where
  "split_acc sep cur [] = [cur]"
| "split_acc sep cur (c # cs) =
     (if c = sep then cur # split_acc sep [] cs else split_acc sep (cur @ [c]) cs)"

definition split_on :: "nat \<Rightarrow> pystr \<Rightarrow> pystr list" where
  "split_on sep s = split_acc sep [] s"

text \<open>\<open>sep.join(xs)\<close>.\<close>

fun join :: "pystr \<Rightarrow> pystr list \<Rightarrow> pystr" where
  "join sep [] = []"
| "join sep [x] = x"
| "join sep (x # y # ys) = x @ sep @ join sep (y # ys)"

text \<open>\<open>s.replace(c, r)\<close> for a pattern \<open>c\<close> of one character.\<close>

definition replace_char :: "nat \<Rightarrow> pystr \<Rightarrow> pystr \<Rightarrow> pystr" where
  "replace_char c r s = concat (map (\<lambda>x. if x = c then r else [x]) s)"

text \<open>\<open>s.find(c)\<close> and \<open>s.rfind(c)\<close> for one character: an index, or \<open>-1\<close>.\<close>

fun find_from :: "nat \<Rightarrow> int \<Rightarrow> pystr \<Rightarrow> int" where
  "find_from c i [] = -1"
| "find_from c i (x # xs) = (if x = c then i else find_from c (i + 1) xs)"

definition py_find :: "nat \<Rightarrow> pystr \<Rightarrow> int" where
  "py_find c s = find_from c 0 s"

definition py_rfind :: "nat \<Rightarrow> pystr \<Rightarrow> int" where
  "py_rfind c s =
     (let r = find_from c 0 (rev s) in if r = -1 then -1 else int (length s) - 1 - r)"

text \<open>
  \<open>s[i:j]\<close>: a negative index counts from the end, and both indices are clamped to
  the string.
\<close>

definition slice_index :: "nat \<Rightarrow> int \<Rightarrow> nat" where
  "slice_index n i = (if i < 0 then nat (max (i + int n) 0) else min (nat i) n)"

definition slice :: "pystr \<Rightarrow> int \<Rightarrow> int \<Rightarrow> pystr" where
  "slice s i j =
     (let a = slice_index (length s) i; b = slice_index (length s) j
      in take (b - a) (drop a s))"

text \<open>\<open>str(n)\<close> for an integer: decimal digits, with a minus sign when negative.\<close>

fun str_of_nat :: "nat \<Rightarrow> pystr" where
  "str_of_nat n = (if n < 10 then [48 + n] else str_of_nat (n div 10) @ [48 + n mod 10])"

declare str_of_nat.simps [simp del]

definition str_of_int :: "int \<Rightarrow> pystr" where
  "str_of_int i = (if i < 0 then 45 # str_of_nat (nat (- i)) else str_of_nat (nat i))"

text \<open>
  \<open>str.lower()\<close>. On an ASCII string it maps \<open>A-Z\<close> to \<open>a-z\<close>; on any other string
  it is the Unicode lower-casing of the interpreter, a parameter.
\<close>

definition ascii_lower :: "nat \<Rightarrow> nat" where
  "ascii_lower c = (if 65 \<le> c \<and> c \<le> 90 then c + 32 else c)"

definition ascii_upper :: "nat \<Rightarrow> nat" where
  "ascii_upper c = (if 97 \<le> c \<and> c \<le> 122 then c - 32 else c)"

definition ascii_alpha :: "nat \<Rightarrow> bool" where
  "ascii_alpha c \<longleftrightarrow> (65 \<le> c \<and> c \<le> 90) \<or> (97 \<le> c \<and> c \<le> 122)"

definition lower :: "(pystr \<Rightarrow> pystr) \<Rightarrow> pystr \<Rightarrow> pystr" where
  "lower unicode_lower s =
     (if list_all (\<lambda>c. c < 128) s then map ascii_lower s else unicode_lower s)"

text \<open>
  \<open>str.title()\<close> on an ASCII string: a letter that follows a letter is lower-cased,
  any other letter is upper-cased. The source applies it to entries of its ASCII
  vocabulary only.
\<close>

fun title_from :: "bool \<Rightarrow> pystr \<Rightarrow> pystr" where
  "title_from prev [] = []"
| "title_from prev (c # cs) =
     (if prev then ascii_lower c else ascii_upper c) # title_from (ascii_alpha c) cs"

definition title_ascii :: "pystr \<Rightarrow> pystr" where
  "title_ascii s = title_from False s"

text \<open>
  \<open>re.sub(lit + r'\s*', '', s)\<close> for a literal \<open>lit\<close> that is not empty: scanning from
  the left, every occurrence of the literal is deleted together with the whitespace
  that follows it, and the scan goes on behind the deleted text.
\<close>

function sub_lit_ws :: "pystr \<Rightarrow> pystr \<Rightarrow> pystr" where
  "sub_lit_ws lit [] = []"
| "sub_lit_ws lit (c # cs) =
     (if lit \<noteq> [] \<and> prefix lit (c # cs)
      then sub_lit_ws lit (dropWhile isspace (drop (length lit) (c # cs)))
      else c # sub_lit_ws lit cs)"
  by pat_completeness auto
termination
proof (relation "measure (\<lambda>(lit, s). length s)")
  show "wf (measure (\<lambda>(lit, s). length s))" by simp
next
  fix lit :: pystr and c :: nat and cs :: pystr
  assume "lit \<noteq> [] \<and> prefix lit (c # cs)"
  then have "0 < length lit" by simp
  then have "length (drop (length lit) (c # cs)) < length (c # cs)" by simp
  moreover have "length (dropWhile isspace (drop (length lit) (c # cs)))
      \<le> length (drop (length lit) (c # cs))"
    by (rule length_dropWhile_le)
  ultimately show "((lit, dropWhile isspace (drop (length lit) (c # cs))), (lit, c # cs))
      \<in> measure (\<lambda>(lit, s). length s)"
    by simp
next
  fix lit :: pystr and c :: nat and cs :: pystr
  show "((lit, cs), (lit, c # cs)) \<in> measure (\<lambda>(lit, s). length s)" by simp
qed

declare sub_lit_ws.simps [simp del]

section \<open>Python values read from JSON\<close>

text \<open>
  The values \<open>json.loads\<close> and the request decoder produce. A \<open>dict\<close> is an association
  list in insertion order (its keys are distinct); a \<open>float\<close> is left abstract.
\<close>

typedecl pyfloat

datatype json =
    JNull
  | JBool bool
  | JInt int
  | JFloat pyfloat
  | JString pystr
  | JArray "json list"
  | JObject "(pystr \<times> json) list"

text \<open>Exceptions: the class that matters to the handlers, and the text of \<open>str(e)\<close>.\<close>

datatype exn_kind =
    JSONDecodeError | AttributeError | TypeError | ValueError | ValidationError | Exception

datatype exn = Raised exn_kind pystr

fun str_exn :: "exn \<Rightarrow> pystr" where
  "str_exn (Raised k m) = m"

fun exn_class :: "exn \<Rightarrow> exn_kind" where
  "exn_class (Raised k m) = k"

text \<open>
  What the program takes from the interpreter and its libraries, and the source does not
  define: \<open>json.loads\<close>; \<open>str\<close> of a float, list or dict; \<open>int\<close> of a string and of a
  float; the truth value of a float; \<open>str.lower\<close> beyond ASCII; the validation by
  pydantic of a \<open>str\<close> field that is given a value that is not a string (accepted and
  converted, or rejected, depending on the pydantic version); and the message of an
  exception that the interpreter raises for a value.
\<close>

record pylib =
  json_loads :: "pystr \<Rightarrow> exn + json"
  py_repr :: "json \<Rightarrow> pystr"
  int_of_str :: "pystr \<Rightarrow> int option"
  int_of_float :: "pyfloat \<Rightarrow> int option"
  float_truthy :: "pyfloat \<Rightarrow> bool"
  unicode_lower :: "pystr \<Rightarrow> pystr"
  validate_str :: "json \<Rightarrow> pystr option"
  runtime_msg :: "exn_kind \<Rightarrow> json \<Rightarrow> pystr"

definition raise_exn :: "pylib \<Rightarrow> exn_kind \<Rightarrow> json \<Rightarrow> exn + 'a" where
  "raise_exn lib k v = Inl (Raised k (runtime_msg lib k v))"

text \<open>Sequencing of computations that may raise.\<close>

fun bind_exn :: "exn + 'a \<Rightarrow> ('a \<Rightarrow> exn + 'b) \<Rightarrow> exn + 'b" where
  "bind_exn (Inl e) f = Inl e"
| "bind_exn (Inr x) f = f x"

fun mapM :: "('a \<Rightarrow> exn + 'b) \<Rightarrow> 'a list \<Rightarrow> exn + 'b list" where
  "mapM f [] = Inr []"
| "mapM f (x # xs) = bind_exn (f x) (\<lambda>y. bind_exn (mapM f xs) (\<lambda>ys. Inr (y # ys)))"

text \<open>\<open>d.get(k)\<close> and \<open>d.get(k, default)\<close> on a dict.\<close>

definition get :: "(pystr \<times> json) list \<Rightarrow> pystr \<Rightarrow> json" where
  "get d k = (case map_of d k of None \<Rightarrow> JNull | Some v \<Rightarrow> v)"

definition get_or :: "(pystr \<times> json) list \<Rightarrow> pystr \<Rightarrow> json \<Rightarrow> json" where
  "get_or d k dflt = (case map_of d k of None \<Rightarrow> dflt | Some v \<Rightarrow> v)"

text \<open>\<open>v.get\<close> needs a dict: on any other value it raises AttributeError.\<close>

definition as_dict :: "pylib \<Rightarrow> json \<Rightarrow> exn + (pystr \<times> json) list" where
  "as_dict lib v = (case v of JObject d \<Rightarrow> Inr d | _ \<Rightarrow> raise_exn lib AttributeError v)"

text \<open>The truth value of a value.\<close>

definition truthy :: "pylib \<Rightarrow> json \<Rightarrow> bool" where
  "truthy lib v =
     (case v of
        JNull \<Rightarrow> False
      | JBool b \<Rightarrow> b
      | JInt i \<Rightarrow> i \<noteq> 0
      | JFloat f \<Rightarrow> float_truthy lib f
      | JString s \<Rightarrow> s \<noteq> []
      | JArray xs \<Rightarrow> xs \<noteq> []
      | JObject d \<Rightarrow> d \<noteq> [])"

text \<open>\<open>str(v)\<close>, which is also how an f-string renders \<open>{v}\<close>.\<close>

definition py_str :: "pylib \<Rightarrow> json \<Rightarrow> pystr" where
  "py_str lib v =
     (case v of
        JString s \<Rightarrow> s
      | JNull \<Rightarrow> u ''None''
      | JBool b \<Rightarrow> (if b then u ''True'' else u ''False'')
      | JInt i \<Rightarrow> str_of_int i
      | _ \<Rightarrow> py_repr lib v)"

text \<open>\<open>int(v)\<close>.\<close>

definition py_int :: "pylib \<Rightarrow> json \<Rightarrow> exn + int" where
  "py_int lib v =
     (case v of
        JInt i \<Rightarrow> Inr i
      | JBool b \<Rightarrow> Inr (if b then 1 else 0)
      | JFloat f \<Rightarrow> (case int_of_float lib f of Some i \<Rightarrow> Inr i | None \<Rightarrow> raise_exn lib ValueError v)
      | JString s \<Rightarrow> (case int_of_str lib s of Some i \<Rightarrow> Inr i | None \<Rightarrow> raise_exn lib ValueError v)
      | _ \<Rightarrow> raise_exn lib TypeError v)"

text \<open>
  \<open>for x in v\<close>: the items of a list, the keys of a dict, the characters of a string;
  any other value is not iterable (TypeError).
\<close>

definition py_iter :: "pylib \<Rightarrow> json \<Rightarrow> exn + json list" where
  "py_iter lib v =
     (case v of
        JArray xs \<Rightarrow> Inr xs
      | JObject d \<Rightarrow> Inr (map (\<lambda>kv. JString (fst kv)) d)
      | JString s \<Rightarrow> Inr (map (\<lambda>c. JString [c]) s)
      | _ \<Rightarrow> raise_exn lib TypeError v)"

text \<open>
  The validation pydantic runs when a model is constructed: a \<open>str\<close> field takes a
  string as it is, an \<open>Optional[str]\<close> field also takes \<open>None\<close>, a \<open>List[str]\<close> field
  takes a list whose items pass as \<open>str\<close>.
\<close>

definition pydantic_str :: "pylib \<Rightarrow> json \<Rightarrow> exn + pystr" where
  "pydantic_str lib v =
     (case v of
        JString s \<Rightarrow> Inr s
      | _ \<Rightarrow> (case validate_str lib v of Some s \<Rightarrow> Inr s | None \<Rightarrow> raise_exn lib ValidationError v))"

definition pydantic_opt_str :: "pylib \<Rightarrow> json \<Rightarrow> exn + pystr option" where
  "pydantic_opt_str lib v =
     (case v of JNull \<Rightarrow> Inr None | _ \<Rightarrow> bind_exn (pydantic_str lib v) (\<lambda>s. Inr (Some s)))"

definition pydantic_str_list :: "pylib \<Rightarrow> json \<Rightarrow> exn + pystr list" where
  "pydantic_str_list lib v =
     (case v of JArray xs \<Rightarrow> mapM (pydantic_str lib) xs | _ \<Rightarrow> raise_exn lib ValidationError v)"

section \<open>The schemas (models/schemas.py)\<close>

record ActionStep =
  step_number :: int
  title :: pystr
  description :: pystr
  estimated_time :: "pystr option"
  completed :: bool

record PracticeQuestion =
  question_id :: int
  question :: pystr
  question_type :: pystr
  options :: "pystr list option"
  correct_answer :: pystr
  explanation :: pystr
  difficulty :: pystr
  topic :: pystr

record TutorialSummary =
  title :: pystr
  short_summary :: pystr
  detailed_summary :: pystr
  duration :: "pystr option"
  difficulty_level :: pystr
  key_topics :: "pystr list"

record ProcessedTutorial =
  summary :: TutorialSummary
  action_steps :: "ActionStep list"
  practice_questions :: "PracticeQuestion list"
  original_language :: pystr
  target_language :: pystr
  processing_time :: real
  original_transcript :: "pystr option"

record ChatResponse =
  response :: pystr
  timestamp :: real

datatype LanguageEnum = ENGLISH | SPANISH | FRENCH | GERMAN | HINDI

fun language_value :: "LanguageEnum \<Rightarrow> pystr" where
  "language_value ENGLISH = u ''english''"
| "language_value SPANISH = u ''spanish''"
| "language_value FRENCH = u ''french''"
| "language_value GERMAN = u ''german''"
| "language_value HINDI = u ''hindi''"

record TranscriptRequest =
  youtube_url :: "pystr option"
  transcript_text :: "pystr option"
  target_language :: LanguageEnum

record ChatRequest =
  tutorial_data :: "(pystr \<times> json) list"
  user_message :: pystr
  chat_history :: "(pystr \<times> json) list list option"

section \<open>The AI service (services/ai_service.py)\<close>

text \<open>
  The state of the service object that the methods read and write: the transcript kept
  for the fallback questions.
\<close>

record AIService =
  current_transcript :: pystr

subsection \<open>The prompts\<close>

definition create_processing_prompt :: "pystr \<Rightarrow> pystr \<Rightarrow> pystr" where
  "create_processing_prompt transcript target_lang =
     u ''\<newline>'' @
     u ''You are an expert tutorial analyzer. Please process this tutorial transcript and provide a structured response.\<newline>'' @
     u ''\<newline>'' @
     u ''TRANSCRIPT:\<newline>'' @
     transcript @ u ''\<newline>'' @
     u ''\<newline>'' @
     u ''INSTRUCTIONS:\<newline>'' @
     u ''1. Analyze the tutorial and create a comprehensive summary\<newline>'' @
     u ''2. Extract actionable learning steps as a checklist\<newline>'' @
     u ''3. For the detailed summary, provide it as a single string with bullet points separated by newlines\<newline>'' @
     u ''4. If target language is not English, translate all content to '' @ target_lang @
     u ''\<newline>'' @
     u ''5. Maintain technical terms appropriately\<newline>'' @
     u ''\<newline>'' @
     u ''Please respond with a JSON object in this exact format:\<newline>'' @
     u ''{\<newline>'' @
     u ''    '' @ [34] @ u ''title'' @ [34] @ u '': '' @ [34] @
     u ''Tutorial title (inferred from content)'' @ [34] @ u '',\<newline>'' @
     u ''    '' @ [34] @ u ''short_summary'' @ [34] @ u '': '' @ [34] @
     u ''2-3 sentence overview'' @ [34] @ u '',\<newline>'' @
     u ''    '' @ [34] @ u ''detailed_summary'' @ [34] @ u '': '' @ [34] @ [8226] @
     u '' Key concept 1 explained'' @ [92] @ u ''n'' @ [8226] @
     u '' Key concept 2 explained'' @ [92] @ u ''n'' @ [8226] @
     u '' Key concept 3 explained'' @ [92] @ u ''n'' @ [8226] @
     u '' Important details and takeaways'' @ [34] @ u '',\<newline>'' @
     u ''    '' @ [34] @ u ''duration'' @ [34] @ u '': '' @ [34] @
     u ''Estimated completion time'' @ [34] @ u '',\<newline>'' @
     u ''    '' @ [34] @ u ''difficulty_level'' @ [34] @ u '': '' @ [34] @
     u ''Beginner/Intermediate/Advanced'' @ [34] @ u '',\<newline>'' @
     u ''    '' @ [34] @ u ''key_topics'' @ [34] @ u '': ['' @ [34] @ u ''topic1'' @ [34] @
     u '', '' @ [34] @ u ''topic2'' @ [34] @ u '', '' @ [34] @ u ''topic3'' @ [34] @
     u ''],\<newline>'' @
     u ''    '' @ [34] @ u ''action_steps'' @ [34] @ u '': [\<newline>'' @
     u ''        {\<newline>'' @
     u ''            '' @ [34] @ u ''step_number'' @ [34] @ u '': 1,\<newline>'' @
     u ''            '' @ [34] @ u ''title'' @ [34] @ u '': '' @ [34] @ u ''Step title'' @
     [34] @ u '',\<newline>'' @
     u ''            '' @ [34] @ u ''description'' @ [34] @ u '': '' @ [34] @
     u ''Detailed description of what to do'' @ [34] @ u '',\<newline>'' @
     u ''            '' @ [34] @ u ''estimated_time'' @ [34] @ u '': '' @ [34] @
     u ''5-10 minutes'' @ [34] @ u ''\<newline>'' @
     u ''        }\<newline>'' @
     u ''    ]\<newline>'' @
     u ''}\<newline>'' @
     u ''\<newline>'' @
     u ''TARGET LANGUAGE: '' @ target_lang @ u ''\<newline>'' @
     u ''Ensure all text content is in '' @ target_lang @ u '' if it'' @ [39] @
     u ''s not English.\<newline>'' @
     u ''IMPORTANT: \<newline>'' @
     u ''- The detailed_summary must be a single string value, not an object or array\<newline>'' @
     u ''- Use '' @ [92] @ u ''n to separate bullet points within the string\<newline>'' @
     u ''- Each bullet point should start with '' @ [8226] @ u ''\<newline>''"

definition create_questions_prompt :: "pystr \<Rightarrow> pystr \<Rightarrow> pystr" where
  "create_questions_prompt transcript target_lang =
     u ''\<newline>'' @
     u ''You are an expert educator. Based on this tutorial transcript, create practice questions to test understanding of the SPECIFIC CONTENT.\<newline>'' @
     u ''\<newline>'' @
     u ''TRANSCRIPT:\<newline>'' @
     transcript @ u ''\<newline>'' @
     u ''\<newline>'' @
     u ''CRITICAL INSTRUCTIONS:\<newline>'' @
     u ''1. Read the transcript carefully and create questions about the ACTUAL CONTENT discussed\<newline>'' @
     u ''2. Questions must be based on specific topics, concepts, or steps mentioned in the transcript\<newline>'' @
     u ''3. Create 5-6 practice questions covering key concepts from the tutorial\<newline>'' @
     u ''4. Include a mix of question types: multiple choice, true/false, and short answer\<newline>'' @
     u ''5. Make questions practical and test real understanding of the content\<newline>'' @
     u ''6. Provide clear explanations for answers\<newline>'' @
     u ''7. If target language is not English, translate all content to '' @ target_lang @
     u ''\<newline>'' @
     u ''8. ALWAYS generate questions regardless of transcript length\<newline>'' @
     u ''9. Return ONLY valid JSON - no markdown, no extra text, no control characters\<newline>'' @
     u ''\<newline>'' @
     u ''RESPONSE FORMAT - Return ONLY this JSON structure:\<newline>'' @
     u ''{\<newline>'' @
     u ''    '' @ [34] @ u ''questions'' @ [34] @ u '': [\<newline>'' @
     u ''        {\<newline>'' @
     u ''            '' @ [34] @ u ''question_id'' @ [34] @ u '': 1,\<newline>'' @
     u ''            '' @ [34] @ u ''question'' @ [34] @ u '': '' @ [34] @
     u ''Based on the transcript, what is [specific concept mentioned]?'' @ [34] @
     u '',\<newline>'' @
     u ''            '' @ [34] @ u ''question_type'' @ [34] @ u '': '' @ [34] @
     u ''multiple_choice'' @ [34] @ u '',\<newline>'' @
     u ''            '' @ [34] @ u ''options'' @ [34] @ u '': ['' @ [34] @
     u ''Option A from content'' @ [34] @ u '', '' @ [34] @ u ''Option B from content'' @
     [34] @ u '', '' @ [34] @ u ''Option C from content'' @ [34] @ u '', '' @ [34] @
     u ''Option D from content'' @ [34] @ u ''],\<newline>'' @
     u ''            '' @ [34] @ u ''correct_answer'' @ [34] @ u '': '' @ [34] @
     u ''Option A from content'' @ [34] @ u '',\<newline>'' @
     u ''            '' @ [34] @ u ''explanation'' @ [34] @ u '': '' @ [34] @
     u ''This is correct because the transcript specifically mentions...'' @ [34] @
     u '',\<newline>'' @
     u ''            '' @ [34] @ u ''difficulty'' @ [34] @ u '': '' @ [34] @ u ''easy'' @
     [34] @ u '',\<newline>'' @
     u ''            '' @ [34] @ u ''topic'' @ [34] @ u '': '' @ [34] @
     u ''Specific topic from transcript'' @ [34] @ u ''\<newline>'' @
     u ''        },\<newline>'' @
     u ''        {\<newline>'' @
     u ''            '' @ [34] @ u ''question_id'' @ [34] @ u '': 2,\<newline>'' @
     u ''            '' @ [34] @ u ''question'' @ [34] @ u '': '' @ [34] @
     u ''True or False: The transcript mentions [specific detail]'' @ [34] @
     u '',\<newline>'' @
     u ''            '' @ [34] @ u ''question_type'' @ [34] @ u '': '' @ [34] @
     u ''true_false'' @ [34] @ u '',\<newline>'' @
     u ''            '' @ [34] @ u ''options'' @ [34] @ u '': ['' @ [34] @ u ''True'' @ [34] @
     u '', '' @ [34] @ u ''False'' @ [34] @ u ''],\<newline>'' @
     u ''            '' @ [34] @ u ''correct_answer'' @ [34] @ u '': '' @ [34] @ u ''True'' @
     [34] @ u '',\<newline>'' @
     u ''            '' @ [34] @ u ''explanation'' @ [34] @ u '': '' @ [34] @
     u ''This is true because the tutorial specifically covers...'' @ [34] @
     u '',\<newline>'' @
     u ''            '' @ [34] @ u ''difficulty'' @ [34] @ u '': '' @ [34] @ u ''medium'' @
     [34] @ u '',\<newline>'' @
     u ''            '' @ [34] @ u ''topic'' @ [34] @ u '': '' @ [34] @
     u ''Specific topic from transcript'' @ [34] @ u ''\<newline>'' @
     u ''        },\<newline>'' @
     u ''        {\<newline>'' @
     u ''            '' @ [34] @ u ''question_id'' @ [34] @ u '': 3,\<newline>'' @
     u ''            '' @ [34] @ u ''question'' @ [34] @ u '': '' @ [34] @
     u ''According to the tutorial, how would you [specific process mentioned]?'' @ [34] @
     u '',\<newline>'' @
     u ''            '' @ [34] @ u ''question_type'' @ [34] @ u '': '' @ [34] @
     u ''short_answer'' @ [34] @ u '',\<newline>'' @
     u ''            '' @ [34] @ u ''options'' @ [34] @ u '': null,\<newline>'' @
     u ''            '' @ [34] @ u ''correct_answer'' @ [34] @ u '': '' @ [34] @
     u ''Based on the transcript, you would [specific steps mentioned]'' @ [34] @
     u '',\<newline>'' @
     u ''            '' @ [34] @ u ''explanation'' @ [34] @ u '': '' @ [34] @
     u ''The tutorial outlines these specific steps...'' @ [34] @ u '',\<newline>'' @
     u ''            '' @ [34] @ u ''difficulty'' @ [34] @ u '': '' @ [34] @ u ''hard'' @
     [34] @ u '',\<newline>'' @
     u ''            '' @ [34] @ u ''topic'' @ [34] @ u '': '' @ [34] @
     u ''Specific topic from transcript'' @ [34] @ u ''\<newline>'' @
     u ''        }\<newline>'' @
     u ''    ]\<newline>'' @
     u ''}\<newline>'' @
     u ''\<newline>'' @
     u ''TARGET LANGUAGE: '' @ target_lang @ u ''\<newline>'' @
     u ''IMPORTANT: \<newline>'' @
     u ''- Base ALL questions on the actual transcript content\<newline>'' @
     u ''- Use specific details, terms, and concepts from the transcript\<newline>'' @
     u ''- Do not use generic questions\<newline>'' @
     u ''- Return only clean JSON without any markdown formatting\<newline>'' @
     u ''- Ensure all strings are properly escaped\<newline>''"

text \<open>One line of the action steps in the chat prompt.\<close>

definition chat_step_line :: "pylib \<Rightarrow> json \<Rightarrow> exn + pystr" where
  "chat_step_line lib step =
     bind_exn (as_dict lib step) (\<lambda>sd.
       Inr (py_str lib (get_or sd (u ''step_number'') (JInt 1)) @ u ''. '' @
            py_str lib (get_or sd (u ''title'') (JString [])) @ u '': '' @
            py_str lib (get_or sd (u ''description'') (JString [])) @ u ''\<newline>''))"

text \<open>\<open>', '.join(v)\<close>: the items of \<open>v\<close> must be strings, or TypeError is raised.\<close>

definition as_str :: "pylib \<Rightarrow> json \<Rightarrow> exn + pystr" where
  "as_str lib v = (case v of JString s \<Rightarrow> Inr s | _ \<Rightarrow> raise_exn lib TypeError v)"

definition join_value :: "pylib \<Rightarrow> pystr \<Rightarrow> json \<Rightarrow> exn + pystr" where
  "join_value lib sep v =
     bind_exn (py_iter lib v) (\<lambda>items.
     bind_exn (mapM (as_str lib) items) (\<lambda>strs. Inr (join sep strs)))"

definition chat_prompt_text ::
  "pylib \<Rightarrow> json \<Rightarrow> json \<Rightarrow> pystr \<Rightarrow> pystr \<Rightarrow> pystr \<Rightarrow> pystr \<Rightarrow> pystr \<Rightarrow> json \<Rightarrow> pystr" where
  "chat_prompt_text lib title_v detailed_v topics transcript_s steps_text
      last_context user_msg target_lang =
     u ''\<newline>'' @
     u ''You are a helpful AI tutor assistant. You have access to a tutorial that the user has been studying. Answer their questions based on the tutorial content.\<newline>'' @
     u ''\<newline>'' @
     u ''TUTORIAL INFORMATION:\<newline>'' @
     u ''Title: '' @ py_str lib title_v @ u ''\<newline>'' @
     u ''Summary: '' @ py_str lib detailed_v @ u ''\<newline>'' @
     u ''Key Topics: '' @ topics @ u ''\<newline>'' @
     u ''\<newline>'' @
     u ''ORIGINAL TRANSCRIPT:\<newline>'' @
     transcript_s @ u ''\<newline>'' @
     u ''\<newline>'' @
     u ''ACTION STEPS:\<newline>'' @
     steps_text @ u ''\<newline>'' @
     u ''\<newline>'' @
     last_context @ u ''\<newline>'' @
     u ''\<newline>'' @
     u ''USER QUESTION: '' @ user_msg @ u ''\<newline>'' @
     u ''\<newline>'' @
     u ''INSTRUCTIONS:\<newline>'' @
     u ''1. Answer based ONLY on the tutorial content provided above\<newline>'' @
     u ''2. If the question is about something not covered in the tutorial, politely say so and offer to help with what is covered\<newline>'' @
     u ''3. Be conversational and helpful, but provide UNIQUE responses each time\<newline>'' @
     u ''4. If asked about specific topics, refer to the relevant parts of the tutorial\<newline>'' @
     u ''5. If asked to explain concepts, use examples from the tutorial when possible\<newline>'' @
     u ''6. Keep responses concise but informative (2-3 paragraphs maximum)\<newline>'' @
     u ''7. Use the target language: '' @ py_str lib target_lang @ u ''\<newline>'' @
     u ''8. IMPORTANT: Provide fresh, varied responses - avoid repeating the same information in the same way\<newline>'' @
     u ''9. If this seems like a repeated question, acknowledge it and offer a different perspective or additional details\<newline>'' @
     u ''\<newline>'' @
     u ''Please provide a helpful, unique response:\<newline>''"

definition create_chat_prompt_from_dict ::
  "pylib \<Rightarrow> (pystr \<times> json) list \<Rightarrow> pystr \<Rightarrow> pystr \<Rightarrow> exn + pystr" where
  "create_chat_prompt_from_dict lib tdata user_msg last_context =
     bind_exn (as_dict lib (get_or tdata (u ''summary'') (JObject []))) (\<lambda>summary_d.
     let title_v = get_or summary_d (u ''title'') (JString (u ''Tutorial''));
         detailed_v = get_or summary_d (u ''detailed_summary'') (JString []);
         topics_v = get_or summary_d (u ''key_topics'') (JArray []);
         steps_v = get_or tdata (u ''action_steps'') (JArray []);
         target_lang = get_or tdata (u ''target_language'') (JString (u ''english''));
         transcript_v = get_or tdata (u ''original_transcript'') (JString [])
     in
     bind_exn (py_iter lib steps_v) (\<lambda>steps.
     bind_exn (mapM (chat_step_line lib) steps) (\<lambda>step_lines.
     bind_exn (join_value lib (u '', '') topics_v) (\<lambda>topics.
       Inr (chat_prompt_text lib title_v detailed_v topics
              (if truthy lib transcript_v then py_str lib transcript_v
               else u ''Transcript not available'')
              (concat step_lines) last_context user_msg target_lang)))))"

subsection \<open>Chat\<close>

text \<open>
  The loop over \<open>reversed(chat_history)\<close>. \<open>None\<close> is \<open>JNull\<close>, so a message whose
  content is \<open>null\<close> leaves \<open>last_user\<close> at \<open>None\<close>. The loop stops (\<open>break\<close>) when it
  has set \<open>last_ai\<close>.
\<close>

fun scan_history :: "pylib \<Rightarrow> (pystr \<times> json) list list \<Rightarrow> json \<Rightarrow> json \<Rightarrow> json \<times> json" where
  "scan_history lib [] last_user last_ai = (last_user, last_ai)"
| "scan_history lib (msg # rest) last_user last_ai =
     (if get msg (u ''role'') = JString (u ''user'') \<and> last_user = JNull
      then scan_history lib rest (get_or msg (u ''content'') (JString [])) last_ai
      else if get msg (u ''role'') = JString (u ''assistant'') \<and> last_ai = JNull
              \<and> truthy lib last_user
      then (last_user, get_or msg (u ''content'') (JString []))
      else scan_history lib rest last_user last_ai)"

text \<open>
  \<open>v[:200]\<close>: a string and a list are cut to their first 200 items; any other value
  that reaches the slice cannot be sliced, and an exception is raised.
\<close>

definition slice_200 :: "pylib \<Rightarrow> json \<Rightarrow> exn + json" where
  "slice_200 lib v =
     (case v of
        JString s \<Rightarrow> Inr (JString (take 200 s))
      | JArray xs \<Rightarrow> Inr (JArray (take 200 xs))
      | _ \<Rightarrow> raise_exn lib TypeError v)"

definition last_context_of :: "pylib \<Rightarrow> (pystr \<times> json) list list \<Rightarrow> exn + pystr" where
  "last_context_of lib history =
     (if history \<noteq> [] \<and> 2 \<le> length history then
        (case scan_history lib (rev history) JNull JNull of (last_user, last_ai) \<Rightarrow>
           if truthy lib last_user \<and> truthy lib last_ai then
             bind_exn (slice_200 lib last_ai) (\<lambda>cut.
               Inr (u ''\<newline>'' @ u ''Previous question: '' @ py_str lib last_user @
                    u ''\<newline>'' @ u ''Previous answer: '' @ py_str lib cut @
                    u ''...\<newline>''))
           else Inr [])
      else Inr [])"

text \<open>
  \<open>chat_about_tutorial\<close>. The model call is the parameter \<open>call\<close>, from the prompt to
  the text of the reply or to the exception it raises; \<open>now\<close> is \<open>time.time()\<close>. Only the
  model call is inside the \<open>try\<close>.
\<close>

definition chat_about_tutorial ::
  "pylib \<Rightarrow> (pystr \<Rightarrow> exn + pystr) \<Rightarrow> real \<Rightarrow> (pystr \<times> json) list \<Rightarrow> pystr
     \<Rightarrow> (pystr \<times> json) list list \<Rightarrow> exn + ChatResponse" where
  "chat_about_tutorial lib call now tdata user_msg history =
     bind_exn (last_context_of lib history) (\<lambda>last_context.
     bind_exn (create_chat_prompt_from_dict lib tdata user_msg last_context)
       (\<lambda>chat_prompt.
          case call chat_prompt of
            Inr reply \<Rightarrow> Inr \<lparr>response = reply, timestamp = now\<rparr>
          | Inl e \<Rightarrow> Inl (Raised Exception (u ''Chat processing failed: '' @ str_exn e))))"


subsection \<open>Cleaning the questions reply\<close>

text \<open>The class \<open>[\x00-\x08\x0B\x0C\x0E-\x1F\x7F]\<close> of the third substitution.\<close>

definition control_char :: "nat \<Rightarrow> bool" where
  "control_char c \<longleftrightarrow> c \<le> 8 \<or> c = 11 \<or> c = 12 \<or> (14 \<le> c \<and> c \<le> 31) \<or> c = 127"

text \<open>The two substitutions that delete the markers of a fenced code block.\<close>

definition strip_fences :: "pystr \<Rightarrow> pystr" where
  "strip_fences s = sub_lit_ws (u ''```'') (sub_lit_ws (u ''```json'') s)"

definition structural :: "pystr \<Rightarrow> bool" where
  "structural line \<longleftrightarrow> list_ex (\<lambda>c. c \<in> set line) (u ''{}[]:,'')"

definition escape_line :: "pystr \<Rightarrow> pystr" where
  "escape_line line =
     replace_char 9 ([92] @ u ''t'')
       (replace_char 13 ([92] @ u ''r'') (replace_char 10 ([92] @ u ''n'') line))"

definition clean_lines :: "pystr list \<Rightarrow> pystr list" where
  "clean_lines ls =
     map (\<lambda>line. if structural line then line else escape_line line)
       (filter (\<lambda>line. strip line \<noteq> []) ls)"

definition clean_json_response :: "pystr \<Rightarrow> pystr" where
  "clean_json_response s =
     (let cleaned = filter (\<lambda>c. \<not> control_char c) (strip_fences s)
      in strip (join (u ''\<newline>'') (clean_lines (split_on 10 cleaned))))"

subsection \<open>Fallback questions\<close>

definition common_tech_terms :: "pystr list" where
  "common_tech_terms =
     [u ''python'', u ''javascript'', u ''aws'', u ''cloud'', u ''database'', u ''api'',
      u ''web'', u ''server'', u ''network'', u ''security'', u ''data'',
      u ''machine learning'', u ''ai'', u ''docker'', u ''kubernetes'', u ''react'',
      u ''node'', u ''sql'', u ''html'', u ''css'']"

text \<open>\<open>[term for term in common_tech_terms if term in transcript]\<close>.\<close>

definition found_topics :: "pylib \<Rightarrow> AIService \<Rightarrow> pystr list" where
  "found_topics lib self =
     filter (\<lambda>term. sublist term (lower (unicode_lower lib) (current_transcript self)))
       common_tech_terms"

definition topic_question_1 :: "pystr \<Rightarrow> PracticeQuestion" where
  "topic_question_1 main_topic =
     \<lparr>question_id = 1,
      question = u ''Based on the tutorial content, what is the main focus regarding '' @
        main_topic @ u ''?'',
      question_type = u ''short_answer'',
      options = None,
      correct_answer = u ''The tutorial focuses on '' @ main_topic @
        u '' concepts and their practical application'',
      explanation = u ''The tutorial content specifically mentions '' @ main_topic @
        u '' and related concepts'',
      difficulty = u ''easy'',
      topic = main_topic\<rparr>"

definition generic_question_1 :: PracticeQuestion where
  "generic_question_1 =
     \<lparr>question_id = 1,
      question = u ''What is the main topic or subject covered in this tutorial?'',
      question_type = u ''short_answer'',
      options = None,
      correct_answer = u ''The main topic discussed in the tutorial content'',
      explanation =
        u ''Review the tutorial title and key concepts to identify the primary subject matter'',
      difficulty = u ''easy'',
      topic = u ''Main Topic''\<rparr>"

definition content_question_2 :: PracticeQuestion where
  "content_question_2 =
     \<lparr>question_id = 2,
      question = u ''True or False: This tutorial provides practical, actionable information'',
      question_type = u ''true_false'',
      options = Some [u ''True'', u ''False''],
      correct_answer = u ''True'',
      explanation =
        u ''The tutorial content is designed to provide practical guidance and actionable steps'',
      difficulty = u ''easy'',
      topic = u ''Tutorial Structure''\<rparr>"

definition topic_question_3 :: "pystr \<Rightarrow> PracticeQuestion" where
  "topic_question_3 topic_s =
     \<lparr>question_id = 3,
      question = u ''According to the tutorial, what is the best approach to learning '' @
        topic_s @ u ''?'',
      question_type = u ''multiple_choice'',
      options = Some [u ''Follow the step-by-step process outlined'',
                      u ''Skip directly to advanced topics'',
                      u ''Ignore the foundational concepts'',
                      u ''Only read without practicing''],
      correct_answer = u ''Follow the step-by-step process outlined'',
      explanation = u ''The tutorial emphasizes following a structured approach to learning '' @
        topic_s,
      difficulty = u ''medium'',
      topic = topic_s\<rparr>"

definition generic_question_3 :: PracticeQuestion where
  "generic_question_3 =
     \<lparr>question_id = 3,
      question = u ''What would be the first step you should take after studying this tutorial?'',
      question_type = u ''multiple_choice'',
      options = Some [u ''Review and understand the key concepts'',
                      u ''Ignore the content completely'',
                      u ''Start with the most advanced topics'',
                      u ''Skip all practice exercises''],
      correct_answer = u ''Review and understand the key concepts'',
      explanation = u ''The best approach after any tutorial is to review and understand the key concepts before moving forward'',
      difficulty = u ''medium'',
      topic = u ''Learning Strategy''\<rparr>"

text \<open>
  \<open>_create_content_based_fallback_questions\<close>. The source also computes the first three
  sentences of the transcript (\<open>context\<close>), which it never uses.
\<close>

definition create_content_based_fallback_questions :: "pylib \<Rightarrow> AIService \<Rightarrow> PracticeQuestion list" where
  "create_content_based_fallback_questions lib self =
     (case found_topics lib self of
        [] \<Rightarrow> [generic_question_1, content_question_2, generic_question_3]
      | t # ts \<Rightarrow>
          [topic_question_1 (title_ascii t), content_question_2, topic_question_3 (title_ascii t)])"

definition create_fallback_questions :: "PracticeQuestion list" where
  "create_fallback_questions =
     [\<lparr>question_id = 1,
       question = u ''What was the main topic of this tutorial?'',
       question_type = u ''short_answer'',
       options = None,
       correct_answer = u ''Based on the tutorial content'',
       explanation = u ''Reflect on the key concepts discussed in the tutorial'',
       difficulty = u ''easy'',
       topic = u ''General''\<rparr>,
      \<lparr>question_id = 2,
       question = u ''True or False: This tutorial provided actionable steps'',
       question_type = u ''true_false'',
       options = Some [u ''True'', u ''False''],
       correct_answer = u ''True'',
       explanation = u ''The tutorial was processed into actionable steps'',
       difficulty = u ''easy'',
       topic = u ''General''\<rparr>]"

subsection \<open>Decoding the questions reply\<close>

text \<open>The body of the loop over \<open>data.get('questions', [])\<close>: one PracticeQuestion.\<close>

definition parse_question :: "pylib \<Rightarrow> json \<Rightarrow> exn + PracticeQuestion" where
  "parse_question lib q_data =
     bind_exn (as_dict lib q_data) (\<lambda>q.
     bind_exn (py_int lib (get_or q (u ''question_id'') (JInt 1))) (\<lambda>qid.
     bind_exn (if truthy lib (get q (u ''options''))
               then bind_exn (pydantic_str_list lib (get q (u ''options''))) (\<lambda>os. Inr (Some os))
               else Inr None) (\<lambda>opts.
       Inr \<lparr>question_id = qid,
            question = py_str lib (get_or q (u ''question'') (JString [])),
            question_type = py_str lib (get_or q (u ''question_type'') (JString (u ''multiple_choice''))),
            options = opts,
            correct_answer = py_str lib (get_or q (u ''correct_answer'') (JString [])),
            explanation = py_str lib (get_or q (u ''explanation'') (JString [])),
            difficulty = py_str lib (get_or q (u ''difficulty'') (JString (u ''medium''))),
            topic = py_str lib (get_or q (u ''topic'') (JString (u ''General'')))\<rparr>)))"

text \<open>The questions of a decoded payload, or the exception raised on the way.\<close>

definition parse_questions_data :: "pylib \<Rightarrow> json \<Rightarrow> exn + PracticeQuestion list" where
  "parse_questions_data lib data =
     bind_exn (as_dict lib data) (\<lambda>d.
     bind_exn (py_iter lib (get_or d (u ''questions'') (JArray []))) (\<lambda>items.
       mapM (parse_question lib) items))"

text \<open>
  \<open>_parse_questions_response\<close>: both handlers, and both early returns, give the
  content-based fallback questions.
\<close>

definition parse_questions_response :: "pylib \<Rightarrow> AIService \<Rightarrow> pystr \<Rightarrow> PracticeQuestion list" where
  "parse_questions_response lib self reply =
     (let cleaned_response = clean_json_response reply;
          json_start = py_find 123 cleaned_response;
          json_end = py_rfind 125 cleaned_response + 1
      in if json_start = -1 \<or> json_end = 0
         then create_content_based_fallback_questions lib self
         else (case bind_exn (json_loads lib (slice cleaned_response json_start json_end))
                      (parse_questions_data lib) of
                 Inl e \<Rightarrow> create_content_based_fallback_questions lib self
               | Inr qs \<Rightarrow>
                   if qs = [] then create_content_based_fallback_questions lib self else qs))"

subsection \<open>Decoding the structuring reply\<close>

text \<open>The coercion of \<open>detailed_summary\<close> to a string.\<close>

definition coerce_detailed_summary :: "pylib \<Rightarrow> json \<Rightarrow> pystr" where
  "coerce_detailed_summary lib v =
     (case v of
        JObject d \<Rightarrow> py_str lib v
      | JArray items \<Rightarrow> join (u ''\<newline>'') (map (\<lambda>item. [8226] @ u '' '' @ py_str lib item) items)
      | JString s \<Rightarrow> s
      | _ \<Rightarrow> py_str lib v)"

definition parse_step :: "pylib \<Rightarrow> json \<Rightarrow> exn + ActionStep" where
  "parse_step lib step_data =
     bind_exn (as_dict lib step_data) (\<lambda>sd.
     bind_exn (py_int lib (get_or sd (u ''step_number'') (JInt 1))) (\<lambda>n.
     bind_exn (pydantic_opt_str lib (get sd (u ''estimated_time''))) (\<lambda>et.
       Inr \<lparr>step_number = n,
            ActionStep.title = py_str lib (get_or sd (u ''title'') (JString [])),
            description = py_str lib (get_or sd (u ''description'') (JString [])),
            estimated_time = et,
            completed = False\<rparr>)))"

text \<open>The body of the \<open>try\<close> of \<open>_parse_claude_response\<close> behind \<open>json.loads\<close>.\<close>

definition build_tutorial :: "pylib \<Rightarrow> json \<Rightarrow> pystr \<Rightarrow> exn + ProcessedTutorial" where
  "build_tutorial lib data target_lang =
     bind_exn (as_dict lib data) (\<lambda>d.
     bind_exn (pydantic_opt_str lib (get d (u ''duration''))) (\<lambda>dur.
     bind_exn (pydantic_str_list lib
                 (case get d (u ''key_topics'') of JArray xs \<Rightarrow> JArray xs | _ \<Rightarrow> JArray []))
       (\<lambda>topics.
     bind_exn (py_iter lib (get_or d (u ''action_steps'') (JArray []))) (\<lambda>items.
     bind_exn (mapM (parse_step lib) items) (\<lambda>steps.
       Inr \<lparr>summary =
              \<lparr>title = py_str lib (get_or d (u ''title'') (JString (u ''Tutorial''))),
               short_summary = py_str lib (get_or d (u ''short_summary'') (JString [])),
               detailed_summary =
                 coerce_detailed_summary lib (get_or d (u ''detailed_summary'') (JString [])),
               duration = dur,
               difficulty_level =
                 py_str lib (get_or d (u ''difficulty_level'') (JString (u ''Intermediate''))),
               key_topics = topics\<rparr>,
            action_steps = steps,
            practice_questions = [],
            original_language = u ''english'',
            ProcessedTutorial.target_language = target_lang,
            processing_time = 0,
            original_transcript = None\<rparr>)))))"

text \<open>
  The two handlers of \<open>_parse_claude_response\<close>: each raises a plain Exception whose
  message quotes the one caught.
\<close>

definition reraise_parse :: "exn \<Rightarrow> exn" where
  "reraise_parse e =
     (if exn_class e = JSONDecodeError
      then Raised Exception (u ''Failed to parse AI response: '' @ str_exn e)
      else Raised Exception (u ''Error processing AI response: '' @ str_exn e))"

definition parse_claude_response :: "pylib \<Rightarrow> pystr \<Rightarrow> pystr \<Rightarrow> exn + ProcessedTutorial" where
  "parse_claude_response lib reply target_lang =
     (let json_start = py_find 123 reply;
          json_end = py_rfind 125 reply + 1;
          json_str = slice reply json_start json_end
      in case bind_exn (json_loads lib json_str) (\<lambda>data. build_tutorial lib data target_lang) of
           Inl e \<Rightarrow> Inl (reraise_parse e)
         | Inr t \<Rightarrow> Inr t)"

subsection \<open>The fallback tutorial\<close>

definition create_fallback_tutorial :: "pystr \<Rightarrow> pystr \<Rightarrow> pystr \<Rightarrow> ProcessedTutorial" where
  "create_fallback_tutorial transcript target_lang error_msg =
     \<lparr>summary =
        \<lparr>title = u ''Tutorial ('' @ str_of_nat (length (split_ws transcript)) @ u '' words)'',
         short_summary = u ''This tutorial covers various topics. Processing encountered some issues, but basic structure has been created.'',
         detailed_summary =
           [8226] @ u '' Tutorial content was processed with limited AI analysis\<newline>'' @
           [8226] @ u '' Manual review may be needed for optimal results\<newline>'' @
           [8226] @ u '' Key concepts may need additional clarification'',
         duration = Some (u ''Variable''),
         difficulty_level = u ''Intermediate'',
         key_topics = [u ''General Tutorial Content'']\<rparr>,
      action_steps =
        [\<lparr>step_number = 1,
          ActionStep.title = u ''Review Tutorial Content'',
          description = u ''Go through the original tutorial content to understand the main concepts.'',
          estimated_time = Some (u ''10-15 minutes''),
          completed = False\<rparr>,
         \<lparr>step_number = 2,
          ActionStep.title = u ''Practice Key Concepts'',
          description = u ''Apply the concepts learned from the tutorial in practical exercises.'',
          estimated_time = Some (u ''20-30 minutes''),
          completed = False\<rparr>],
      practice_questions = create_fallback_questions,
      original_language = u ''english'',
      ProcessedTutorial.target_language = target_lang,
      processing_time = 0,
      original_transcript = Some transcript\<rparr>"

subsection \<open>Processing a tutorial\<close>

text \<open>
  \<open>process_tutorial\<close> stores the transcript in the service, then calls the model for the
  structure and, when that reply decodes, for the questions. It returns the tutorial and
  the service as it leaves it.
\<close>

definition process_tutorial ::
  "pylib \<Rightarrow> (pystr \<Rightarrow> exn + pystr) \<Rightarrow> AIService \<Rightarrow> pystr \<Rightarrow> pystr
     \<Rightarrow> ProcessedTutorial \<times> AIService" where
  "process_tutorial lib call self0 transcript target_lang =
     (let self = self0\<lparr>current_transcript := transcript\<rparr>;
          main_prompt = create_processing_prompt transcript target_lang
      in case bind_exn (call main_prompt) (\<lambda>main_response.
                parse_claude_response lib main_response target_lang) of
           Inl e \<Rightarrow> (create_fallback_tutorial transcript target_lang (str_exn e), self)
         | Inr tutorial \<Rightarrow>
             (let qs = (case call (create_questions_prompt transcript target_lang) of
                          Inr questions_response \<Rightarrow>
                            parse_questions_response lib self questions_response
                        | Inl e \<Rightarrow> create_content_based_fallback_questions lib self)
              in (tutorial\<lparr>practice_questions := qs, original_transcript := Some transcript\<rparr>,
                  self)))"

section \<open>The transcript service (services/transcript_service.py)\<close>

definition validate_transcript :: "pystr \<Rightarrow> bool" where
  "validate_transcript transcript =
     (if transcript = [] \<or> length (strip transcript) < 50 then False else True)"

section \<open>The endpoints (main.py, utils/helpers.py)\<close>

datatype HTTPException = HTTPException (status_code: nat) (detail: pystr)

definition validate_youtube_url :: "pylib \<Rightarrow> pystr \<Rightarrow> bool" where
  "validate_youtube_url lib url =
     list_ex (\<lambda>pattern. sublist pattern (lower (unicode_lower lib) url))
       [u ''youtube.com/watch'', u ''youtu.be/'', u ''youtube.com/embed/'',
        u ''m.youtube.com/watch'']"

text \<open>
  The endpoint \<open>/api/process-tutorial\<close>. The URL of the request is the string that
  \<open>str\<close> gives for it. \<open>get_transcript\<close> is the transcript service's call of the video
  platform; it returns a pair of the transcript and an error message, one of them
  \<open>None\<close>. \<open>validate_transcript\<close> refuses \<open>None\<close> as it refuses the empty string.
  \<open>elapsed\<close> is the time measured around the request. Nothing between the checks and
  the return raises anything but the HTTPException written here, so the handler that
  turns other exceptions into status 500 has nothing to catch.
\<close>

definition process_tutorial_endpoint ::
  "pylib \<Rightarrow> (pystr \<Rightarrow> exn + pystr) \<Rightarrow> (pystr \<Rightarrow> pystr option \<times> pystr option) \<Rightarrow> real
     \<Rightarrow> AIService \<Rightarrow> TranscriptRequest \<Rightarrow> (HTTPException + ProcessedTutorial) \<times> AIService" where
  "process_tutorial_endpoint lib call get_transcript elapsed self request =
     (let fetched =
        (case youtube_url request of
           Some url \<Rightarrow>
             if \<not> validate_youtube_url lib url
             then Inl (HTTPException 400 (u ''Invalid YouTube URL format''))
             else (case get_transcript url of
                     (text, Some err) \<Rightarrow>
                       if err \<noteq> [] then Inl (HTTPException 400 err) else Inr text
                   | (text, None) \<Rightarrow> Inr text)
         | None \<Rightarrow>
             (case transcript_text request of
                Some text \<Rightarrow>
                  if text \<noteq> [] then Inr (Some text)
                  else Inl (HTTPException 400
                         (u ''Either youtube_url or transcript_text must be provided''))
              | None \<Rightarrow>
                  Inl (HTTPException 400
                    (u ''Either youtube_url or transcript_text must be provided''))))
      in case fetched of
           Inl err \<Rightarrow> (Inl err, self)
         | Inr None \<Rightarrow>
             (Inl (HTTPException 400 (u ''Transcript is too short or invalid'')), self)
         | Inr (Some text) \<Rightarrow>
             if \<not> validate_transcript text
             then (Inl (HTTPException 400 (u ''Transcript is too short or invalid'')), self)
             else (case process_tutorial lib call self text
                          (language_value (TranscriptRequest.target_language request)) of
                     (processed, self') \<Rightarrow>
                       (Inr (processed\<lparr>processing_time := elapsed\<rparr>), self')))"

text \<open>The endpoint \<open>/api/chat\<close>: every exception becomes status 500.\<close>

definition chat_endpoint ::
  "pylib \<Rightarrow> (pystr \<Rightarrow> exn + pystr) \<Rightarrow> real \<Rightarrow> ChatRequest \<Rightarrow> HTTPException + ChatResponse" where
  "chat_endpoint lib call now request =
     (case chat_about_tutorial lib call now (tutorial_data request) (user_message request)
             (case chat_history request of None \<Rightarrow> [] | Some h \<Rightarrow> h) of
        Inr r \<Rightarrow> Inr r
      | Inl e \<Rightarrow> Inl (HTTPException 500 (u ''Chat processing failed: '' @ str_exn e)))"


section \<open>Encoding, and a library to evaluate with\<close>

text \<open>
  The JSON object that pydantic serialises a PracticeQuestion to (the response of the
  endpoint): one member per field, \<open>None\<close> as \<open>null\<close>.
\<close>

definition encode_question :: "PracticeQuestion \<Rightarrow> json" where
  "encode_question pq =
     JObject
       [(u ''question_id'', JInt (question_id pq)),
        (u ''question'', JString (question pq)),
        (u ''question_type'', JString (question_type pq)),
        (u ''options'', (case options pq of None \<Rightarrow> JNull | Some os \<Rightarrow> JArray (map JString os))),
        (u ''correct_answer'', JString (correct_answer pq)),
        (u ''explanation'', JString (explanation pq)),
        (u ''difficulty'', JString (difficulty pq)),
        (u ''topic'', JString (topic pq))]"

text \<open>
  An instance of the library parameters, for evaluating the model on concrete inputs.
  Its \<open>json.loads\<close> decodes the seven documents below as Python's does and rejects the
  other texts it is given here (the empty string, a sentence without braces); its
  pydantic accepts only strings for a \<open>str\<close> field; its \<open>str.lower\<close> is only applied to
  ASCII strings; its \<open>str\<close> renders the one dict that the inputs used here reach, as
  Python does. The inputs used here do not reach \<open>str\<close> of another dict, of a float or
  of a list, \<open>int\<close> of a string or float, or the truth value of a float, and the
  messages of exceptions are left empty.
\<close>

definition blob_document :: pystr where
  "blob_document =
     u ''{'' @ [34] @ u ''detailed_summary'' @ [34] @ u '': '' @
     [34] @ u ''First point'' @ [92] @ u ''nSecond point'' @ [34] @ u ''}''"

definition list_document :: pystr where
  "list_document =
     u ''{'' @ [34] @ u ''detailed_summary'' @ [34] @ u '': ['' @
     [34] @ u ''First point'' @ [34] @ u '', '' @ [34] @ u ''Second point'' @ [34] @ u '']}''"

definition duration_document :: pystr where
  "duration_document =
     u ''{'' @ [34] @ u ''duration'' @ [34] @ u '': {'' @ [34] @ u ''minutes'' @ [34] @ u '': 5}}''"

definition questions_document :: pystr where
  "questions_document =
     u ''{'' @ [34] @ u ''questions'' @ [34] @ u '': [{'' @
     [34] @ u ''question_type'' @ [34] @ u '': '' @ [34] @ u ''short_answer'' @ [34] @ u '', '' @
     [34] @ u ''options'' @ [34] @ u '': null}]}''"

definition choices_document :: pystr where
  "choices_document =
     u ''{'' @ [34] @ u ''questions'' @ [34] @ u '': [{'' @
     [34] @ u ''question_type'' @ [34] @ u '': '' @ [34] @ u ''multiple_choice'' @ [34] @ u '', '' @
     [34] @ u ''options'' @ [34] @ u '': []}]}''"

definition full_document :: pystr where
  "full_document =
     u ''{'' @ [34] @ u ''title'' @ [34] @ u '': '' @ [34] @ u ''Docker'' @ [34] @ u '', '' @
     [34] @ u ''detailed_summary'' @ [34] @ u '': {'' @ [34] @ u ''a'' @ [34] @ u '': 1}, '' @
     [34] @ u ''duration'' @ [34] @ u '': '' @ [34] @ u ''10 minutes'' @ [34] @ u '', '' @
     [34] @ u ''difficulty_level'' @ [34] @ u '': '' @ [34] @ u ''Beginner'' @ [34] @
     u '', '' @ [34] @ u ''key_topics'' @ [34] @ u '': ['' @ [34] @ u ''docker'' @ [34] @
     u ''], '' @ [34] @ u ''action_steps'' @ [34] @ u '': [{'' @ [34] @ u ''step_number'' @
     [34] @ u '': 1, '' @ [34] @ u ''title'' @ [34] @ u '': '' @ [34] @ u ''Install'' @ [34] @
     u '', '' @ [34] @ u ''description'' @ [34] @ u '': '' @ [34] @ u ''Install Docker'' @
     [34] @ u '', '' @ [34] @ u ''estimated_time'' @ [34] @ u '': '' @ [34] @ u ''5 minutes'' @
     [34] @ u ''}]}''"

definition stub_loads :: "pystr \<Rightarrow> exn + json" where
  "stub_loads s =
     (if s = u ''{}'' then Inr (JObject [])
      else if s = blob_document
      then Inr (JObject [(u ''detailed_summary'', JString (u ''First point\<newline>Second point''))])
      else if s = list_document
      then Inr (JObject [(u ''detailed_summary'',
                  JArray [JString (u ''First point''), JString (u ''Second point'')])])
      else if s = duration_document
      then Inr (JObject [(u ''duration'', JObject [(u ''minutes'', JInt 5)])])
      else if s = questions_document
      then Inr (JObject [(u ''questions'',
                  JArray [JObject [(u ''question_type'', JString (u ''short_answer'')),
                                   (u ''options'', JNull)]])])
      else if s = choices_document
      then Inr (JObject [(u ''questions'',
                  JArray [JObject [(u ''question_type'', JString (u ''multiple_choice'')),
                                   (u ''options'', JArray [])]])])
      else if s = full_document
      then Inr (JObject
                 [(u ''title'', JString (u ''Docker'')),
                  (u ''detailed_summary'', JObject [(u ''a'', JInt 1)]),
                  (u ''duration'', JString (u ''10 minutes'')),
                  (u ''difficulty_level'', JString (u ''Beginner'')),
                  (u ''key_topics'', JArray [JString (u ''docker'')]),
                  (u ''action_steps'',
                   JArray [JObject [(u ''step_number'', JInt 1),
                                    (u ''title'', JString (u ''Install'')),
                                    (u ''description'', JString (u ''Install Docker'')),
                                    (u ''estimated_time'', JString (u ''5 minutes''))]])])
      else Inl (Raised JSONDecodeError (u ''Expecting value'')))"

fun stub_repr :: "json \<Rightarrow> pystr" where
  "stub_repr (JObject [(k, JInt i)]) =
     (if k = u ''a'' \<and> i = 1 then u ''{'' @ [39] @ u ''a'' @ [39] @ u '': 1}''
      else u ''<repr>'')"
| "stub_repr v = u ''<repr>''"

definition stub_lib :: pylib where
  "stub_lib =
     \<lparr>json_loads = stub_loads,
      py_repr = stub_repr,
      int_of_str = (\<lambda>s. None),
      int_of_float = (\<lambda>f. None),
      float_truthy = (\<lambda>f. True),
      unicode_lower = (\<lambda>s. s),
      validate_str = (\<lambda>v. None),
      runtime_msg = (\<lambda>k v. [])\<rparr>"

text \<open>A transcript service that finds a transcript of nine characters for every video.\<close>

definition fetch_short :: "pystr \<Rightarrow> pystr option \<times> pystr option" where
  "fetch_short url = (Some (u ''too short''), None)"

text \<open>
  Model calls and a transcript to evaluate with: a model that answers every prompt with
  the last of the documents above, one that answers with the document \<open>{}\<close>, one that
  always raises, and one whose answer has no JSON in it.
\<close>

definition full_document_call :: "pystr \<Rightarrow> exn + pystr" where
  "full_document_call prompt = Inr full_document"

definition empty_object_call :: "pystr \<Rightarrow> exn + pystr" where
  "empty_object_call prompt = Inr (u ''{}'')"

definition failing_call :: "pystr \<Rightarrow> exn + pystr" where
  "failing_call prompt = Inl (Raised Exception (u ''timed out''))"

definition no_json_call :: "pystr \<Rightarrow> exn + pystr" where
  "no_json_call prompt = Inr (u ''I cannot help with that.'')"

definition docker_transcript :: pystr where
  "docker_transcript =
     u ''Docker containers let you package an application with its dependencies.''"

text \<open>
  A model that answers the structuring prompt for the sample transcript with \<open>{}\<close> and
  raises on every other prompt, and a model that replies with the prompt it is given.
\<close>

definition structure_only_call :: "pystr \<Rightarrow> exn + pystr" where
  "structure_only_call prompt =
     (if prompt = create_processing_prompt docker_transcript (u ''english'')
      then Inr (u ''{}'') else Inl (Raised Exception (u ''timed out'')))"

definition echo_call :: "pystr \<Rightarrow> exn + pystr" where
  "echo_call prompt = Inr prompt"

text \<open>
  Two chat histories with the same most recent question and the same answer to it; they
  differ in the answer of the exchange before.
\<close>

definition history_a :: "(pystr \<times> json) list list" where
  "history_a =
     [[(u ''role'', JString (u ''user'')), (u ''content'', JString (u ''What is Docker?''))],
      [(u ''role'', JString (u ''assistant'')), (u ''content'', JString (u ''A container platform.''))],
      [(u ''role'', JString (u ''user'')), (u ''content'', JString (u ''How do I install it?''))],
      [(u ''role'', JString (u ''assistant'')), (u ''content'', JString (u ''Use the installer.''))]]"

definition history_b :: "(pystr \<times> json) list list" where
  "history_b =
     [[(u ''role'', JString (u ''user'')), (u ''content'', JString (u ''What is Docker?''))],
      [(u ''role'', JString (u ''assistant'')), (u ''content'', JString (u ''Docker is a whale.''))],
      [(u ''role'', JString (u ''user'')), (u ''content'', JString (u ''How do I install it?''))],
      [(u ''role'', JString (u ''assistant'')), (u ''content'', JString (u ''Use the installer.''))]]"

text \<open>Two services, each holding a transcript: one names two vocabulary terms, one names one.\<close>

definition python_docker_service :: AIService where
  "python_docker_service = \<lparr>current_transcript = u ''Learn Docker with Python''\<rparr>"

definition docker_service :: AIService where
  "docker_service = \<lparr>current_transcript = u ''Learn Docker''\<rparr>"

section \<open>Properties\<close>

subsection \<open>Validation of the transcript\<close>

lemma length_strip_le: "length (strip s) \<le> length s"
proof -
  have "length (strip s) \<le> length (dropWhile isspace s)"
    unfolding strip_def using length_dropWhile_le [of isspace "rev (dropWhile isspace s)"] by simp
  also have "\<dots> \<le> length s" by (rule length_dropWhile_le)
  finally show ?thesis .
qed

lemma strip_Nil: "strip [] = []" by (simp add: strip_def)

lemma validate_transcript_iff: "validate_transcript t \<longleftrightarrow> 50 \<le> length (strip t)"
  by (auto simp: validate_transcript_def strip_Nil)

lemma endpoint_rejects_text:
  assumes "youtube_url request = None" and "transcript_text request = Some t"
    and "\<not> validate_transcript t"
  shows "process_tutorial_endpoint lib call get_transcript elapsed self request =
     (Inl (HTTPException 400
        (if t = [] then u ''Either youtube_url or transcript_text must be provided''
         else u ''Transcript is too short or invalid'')), self)"
  using assms by (simp add: process_tutorial_endpoint_def)

lemma endpoint_rejects_fetched:
  assumes "youtube_url request = Some url" and "validate_youtube_url lib url"
    and "get_transcript url = (Some t, None)" and "\<not> validate_transcript t"
  shows "process_tutorial_endpoint lib call get_transcript elapsed self request =
     (Inl (HTTPException 400 (u ''Transcript is too short or invalid'')), self)"
  using assms by (simp add: process_tutorial_endpoint_def)

text \<open>
  C9 (as amended): a transcript is accepted exactly when it keeps at least 50 characters
  once leading and trailing whitespace is stripped; so every empty transcript and every
  transcript shorter than 50 characters is refused. A refused transcript, given as text
  or fetched for a video, is answered by the endpoint with status 400 and a reason, and
  nothing is processed.
\<close>

theorem validate_transcript_stripped_length:
  "(validate_transcript t \<longleftrightarrow> 50 \<le> length (strip t)) \<and>
   (t = [] \<or> length t < 50 \<longrightarrow> \<not> validate_transcript t) \<and>
   (youtube_url request = None \<and> transcript_text request = Some t \<and> \<not> validate_transcript t \<longrightarrow>
      process_tutorial_endpoint lib call get_transcript elapsed self request =
        (Inl (HTTPException 400
           (if t = [] then u ''Either youtube_url or transcript_text must be provided''
            else u ''Transcript is too short or invalid'')), self)) \<and>
   (youtube_url request' = Some url \<and> validate_youtube_url lib url \<and>
    get_transcript url = (Some t, None) \<and> \<not> validate_transcript t \<longrightarrow>
      process_tutorial_endpoint lib call get_transcript elapsed self request' =
        (Inl (HTTPException 400 (u ''Transcript is too short or invalid'')), self))"
proof (intro conjI impI)
  show "validate_transcript t \<longleftrightarrow> 50 \<le> length (strip t)" by (rule validate_transcript_iff)
next
  assume "t = [] \<or> length t < 50"
  moreover have "length (strip t) \<le> length t" by (rule length_strip_le)
  ultimately have "length (strip t) < 50" by (auto simp: strip_Nil)
  then show "\<not> validate_transcript t" by (simp add: validate_transcript_iff)
next
  assume "youtube_url request = None \<and> transcript_text request = Some t \<and> \<not> validate_transcript t"
  then show "process_tutorial_endpoint lib call get_transcript elapsed self request =
        (Inl (HTTPException 400
           (if t = [] then u ''Either youtube_url or transcript_text must be provided''
            else u ''Transcript is too short or invalid'')), self)"
    by (simp add: endpoint_rejects_text)
next
  assume "youtube_url request' = Some url \<and> validate_youtube_url lib url \<and>
    get_transcript url = (Some t, None) \<and> \<not> validate_transcript t"
  then show "process_tutorial_endpoint lib call get_transcript elapsed self request' =
        (Inl (HTTPException 400 (u ''Transcript is too short or invalid'')), self)"
    by (simp add: endpoint_rejects_fetched)
qed

lemma short_video_url: "validate_youtube_url stub_lib (u ''https://youtu.be/abc'')"
  by (simp add: validate_youtube_url_def stub_lib_def lower_def ascii_lower_def sublist_code
      prefix_code)

lemma too_short: "\<not> validate_transcript (u ''too short'')"
  by (simp add: validate_transcript_def strip_def isspace_def)

theorem validate_transcript_stripped_length_witness:
  "\<not> validate_transcript (u ''too short'') \<and>
   process_tutorial_endpoint stub_lib no_json_call fetch_short 0 \<lparr>current_transcript = []\<rparr>
     \<lparr>youtube_url = None, transcript_text = Some (u ''too short''), target_language = ENGLISH\<rparr> =
     (Inl (HTTPException 400 (u ''Transcript is too short or invalid'')),
      \<lparr>current_transcript = []\<rparr>) \<and>
   process_tutorial_endpoint stub_lib no_json_call fetch_short 0 \<lparr>current_transcript = []\<rparr>
     \<lparr>youtube_url = Some (u ''https://youtu.be/abc''), transcript_text = None,
      target_language = ENGLISH\<rparr> =
     (Inl (HTTPException 400 (u ''Transcript is too short or invalid'')),
      \<lparr>current_transcript = []\<rparr>)"
  using validate_transcript_stripped_length [of "u ''too short''"
      "\<lparr>youtube_url = None, transcript_text = Some (u ''too short''), target_language = ENGLISH\<rparr>"
      stub_lib no_json_call fetch_short 0 "\<lparr>current_transcript = []\<rparr>"
      "\<lparr>youtube_url = Some (u ''https://youtu.be/abc''), transcript_text = None,
       target_language = ENGLISH\<rparr>" "u ''https://youtu.be/abc''"]
    short_video_url too_short
  by (simp add: fetch_short_def)

text \<open>
  C9 as stated fails: sixty spaces are not empty and are 50 characters or more, and are
  refused.
\<close>

theorem validate_transcript_length_counterexample:
  "\<not> (validate_transcript (replicate 60 32) \<longleftrightarrow>
        replicate 60 32 \<noteq> [] \<and> 50 \<le> length (replicate 60 (32::nat)))"
  by (simp add: validate_transcript_def strip_def isspace_def)

subsection \<open>Processing a tutorial\<close>

lemma find_from_absent: "c \<notin> set s \<Longrightarrow> find_from c i s = -1"
  by (induction s arbitrary: i) auto

lemma py_find_absent: "c \<notin> set s \<Longrightarrow> py_find c s = -1"
  by (simp add: py_find_def find_from_absent)

lemma py_rfind_absent: "c \<notin> set s \<Longrightarrow> py_rfind c s = -1"
  by (simp add: py_rfind_def find_from_absent)

lemma slice_no_braces: "slice s (-1) 0 = []"
  by (simp add: slice_def slice_index_def)

lemma parse_claude_response_no_braces:
  assumes "123 \<notin> set reply" and "125 \<notin> set reply" and "json_loads lib [] = Inl err"
  shows "parse_claude_response lib reply l = Inl (reraise_parse err)"
  using assms
  by (simp add: parse_claude_response_def py_find_absent py_rfind_absent slice_no_braces)

lemma create_fallback_tutorial_msg:
  "create_fallback_tutorial t l m = create_fallback_tutorial t l []"
  by (simp add: create_fallback_tutorial_def)

lemma process_tutorial_failure:
  assumes "bind_exn (call (create_processing_prompt t l)) (\<lambda>r. parse_claude_response lib r l) = Inl e"
  shows "process_tutorial lib call self t l =
     (create_fallback_tutorial t l [], self\<lparr>current_transcript := t\<rparr>)"
  using assms create_fallback_tutorial_msg [of t l "str_exn e"]
  by (simp add: process_tutorial_def)

lemma process_tutorial_success:
  assumes "bind_exn (call (create_processing_prompt t l)) (\<lambda>r. parse_claude_response lib r l) = Inr tut"
  shows "process_tutorial lib call self t l =
     (tut\<lparr>practice_questions :=
            (case call (create_questions_prompt t l) of
               Inr questions_response \<Rightarrow>
                 parse_questions_response lib (self\<lparr>current_transcript := t\<rparr>) questions_response
             | Inl e \<Rightarrow>
                 create_content_based_fallback_questions lib (self\<lparr>current_transcript := t\<rparr>)),
          original_transcript := Some t\<rparr>,
      self\<lparr>current_transcript := t\<rparr>)"
  using assms by (simp add: process_tutorial_def Let_def)

lemma content_fallback_length:
  "length (create_content_based_fallback_questions lib self) = 3"
  by (simp add: create_content_based_fallback_questions_def split: list.splits)

lemma content_fallback_nonempty:
  "create_content_based_fallback_questions lib self \<noteq> []"
  using content_fallback_length [of lib self] by auto

lemma parse_questions_response_nonempty: "parse_questions_response lib self reply \<noteq> []"
  by (simp add: parse_questions_response_def Let_def content_fallback_nonempty
      split: sum.splits)

lemma length_create_fallback_questions: "length create_fallback_questions = 2"
  by (simp add: create_fallback_questions_def)

lemma fallback_tutorial_fields:
  "title (summary (create_fallback_tutorial t l m)) =
     u ''Tutorial ('' @ str_of_nat (length (split_ws t)) @ u '' words)''"
  "detailed_summary (summary (create_fallback_tutorial t l m)) \<noteq> []"
  "length (action_steps (create_fallback_tutorial t l m)) = 2"
  "practice_questions (create_fallback_tutorial t l m) = create_fallback_questions"
  "length (practice_questions (create_fallback_tutorial t l m)) = 2"
  "ProcessedTutorial.target_language (create_fallback_tutorial t l m) = l"
  "original_transcript (create_fallback_tutorial t l m) = Some t"
  by (simp_all add: create_fallback_tutorial_def length_create_fallback_questions)

text \<open>
  C2: when the reply to the structuring prompt has no brace in it (and \<open>json.loads\<close>
  rejects the empty document, as Python's does), \<open>process_tutorial\<close> returns the fallback
  tutorial: its title is \<open>Tutorial (n words)\<close> for the number \<open>n\<close> of whitespace-separated
  words of the transcript, it has the 2 generic action steps and the 2 generic practice
  questions, and its target language is the one passed in. A second run on the same
  transcript and language returns the same record, whatever brace-free text the model
  replies then.
\<close>

theorem no_braces_gives_fallback:
  assumes "json_loads lib [] = Inl err"
    and "call (create_processing_prompt t l) = Inr reply"
    and "123 \<notin> set reply" and "125 \<notin> set reply"
    and "call' (create_processing_prompt t l) = Inr reply'"
    and "123 \<notin> set reply'" and "125 \<notin> set reply'"
  shows "fst (process_tutorial lib call self t l) = create_fallback_tutorial t l [] \<and>
     fst (process_tutorial lib call' self' t l) = fst (process_tutorial lib call self t l) \<and>
     title (summary (fst (process_tutorial lib call self t l))) =
       u ''Tutorial ('' @ str_of_nat (length (split_ws t)) @ u '' words)'' \<and>
     length (action_steps (fst (process_tutorial lib call self t l))) = 2 \<and>
     practice_questions (fst (process_tutorial lib call self t l)) = create_fallback_questions \<and>
     length (practice_questions (fst (process_tutorial lib call self t l))) = 2 \<and>
     ProcessedTutorial.target_language (fst (process_tutorial lib call self t l)) = l"
proof -
  have "bind_exn (call (create_processing_prompt t l)) (\<lambda>r. parse_claude_response lib r l)
      = Inl (reraise_parse err)"
    using assms(1-4) by (simp add: parse_claude_response_no_braces)
  then have 1: "process_tutorial lib call self t l =
      (create_fallback_tutorial t l [], self\<lparr>current_transcript := t\<rparr>)"
    by (rule process_tutorial_failure)
  have "bind_exn (call' (create_processing_prompt t l)) (\<lambda>r. parse_claude_response lib r l)
      = Inl (reraise_parse err)"
    using assms(1,5-7) by (simp add: parse_claude_response_no_braces)
  then have 2: "process_tutorial lib call' self' t l =
      (create_fallback_tutorial t l [], self'\<lparr>current_transcript := t\<rparr>)"
    by (rule process_tutorial_failure)
  show ?thesis unfolding 1 2
    by (simp add: fallback_tutorial_fields length_create_fallback_questions)
qed

lemma stub_loads_empty: "json_loads stub_lib [] = Inl (Raised JSONDecodeError (u ''Expecting value''))"
  by (simp add: stub_lib_def stub_loads_def blob_document_def list_document_def
      duration_document_def questions_document_def choices_document_def full_document_def)

lemma split_ws_docker: "length (split_ws docker_transcript) = 10"
  by (simp add: docker_transcript_def split_ws_def isspace_def)

lemma str_of_nat_10: "str_of_nat 10 = u ''10''"
  by (simp add: str_of_nat.simps)

theorem no_braces_gives_fallback_witness:
  "title (summary (fst (process_tutorial stub_lib no_json_call \<lparr>current_transcript = []\<rparr>
      docker_transcript (u ''spanish'')))) = u ''Tutorial (10 words)'' \<and>
   ProcessedTutorial.target_language (fst (process_tutorial stub_lib no_json_call
      \<lparr>current_transcript = []\<rparr> docker_transcript (u ''spanish''))) = u ''spanish''"
  using no_braces_gives_fallback [of stub_lib _ no_json_call docker_transcript "u ''spanish''"
      "u ''I cannot help with that.''" no_json_call "u ''I cannot help with that.''"
      "\<lparr>current_transcript = []\<rparr>" "\<lparr>current_transcript = []\<rparr>", OF stub_loads_empty]
  by (simp add: no_json_call_def fallback_tutorial_fields split_ws_docker str_of_nat_10)

lemma parse_claude_response_empty_object:
  "parse_claude_response stub_lib (u ''{}'') l =
     Inr \<lparr>summary = \<lparr>title = u ''Tutorial'', short_summary = [], detailed_summary = [],
                     duration = None, difficulty_level = u ''Intermediate'', key_topics = []\<rparr>,
          action_steps = [], practice_questions = [], original_language = u ''english'',
          ProcessedTutorial.target_language = l, processing_time = 0,
          original_transcript = None\<rparr>"
  by (simp add: parse_claude_response_def py_find_def py_rfind_def slice_def slice_index_def
      stub_lib_def stub_loads_def build_tutorial_def as_dict_def get_def get_or_def
      pydantic_opt_str_def pydantic_str_list_def py_iter_def py_str_def
      coerce_detailed_summary_def)

lemma process_tutorial_outcome:
  "practice_questions (fst (process_tutorial lib call self t l)) \<noteq> [] \<and>
   original_transcript (fst (process_tutorial lib call self t l)) = Some t \<and>
   (\<forall>e. bind_exn (call (create_processing_prompt t l)) (\<lambda>r. parse_claude_response lib r l) = Inl e \<longrightarrow>
      fst (process_tutorial lib call self t l) = create_fallback_tutorial t l [] \<and>
      title (summary (fst (process_tutorial lib call self t l))) \<noteq> [] \<and>
      detailed_summary (summary (fst (process_tutorial lib call self t l))) \<noteq> [] \<and>
      length (action_steps (fst (process_tutorial lib call self t l))) = 2) \<and>
   (\<forall>tut. bind_exn (call (create_processing_prompt t l)) (\<lambda>r. parse_claude_response lib r l) = Inr tut \<longrightarrow>
      summary (fst (process_tutorial lib call self t l)) = summary tut \<and>
      action_steps (fst (process_tutorial lib call self t l)) = action_steps tut)"
proof (cases "bind_exn (call (create_processing_prompt t l)) (\<lambda>r. parse_claude_response lib r l)")
  case (Inl e)
  have "process_tutorial lib call self t l =
      (create_fallback_tutorial t l [], self\<lparr>current_transcript := t\<rparr>)"
    using Inl by (rule process_tutorial_failure)
  then show ?thesis using Inl
    by (simp add: fallback_tutorial_fields create_fallback_questions_def)
next
  case (Inr tut)
  have "process_tutorial lib call self t l =
     (tut\<lparr>practice_questions :=
            (case call (create_questions_prompt t l) of
               Inr questions_response \<Rightarrow>
                 parse_questions_response lib (self\<lparr>current_transcript := t\<rparr>) questions_response
             | Inl e \<Rightarrow>
                 create_content_based_fallback_questions lib (self\<lparr>current_transcript := t\<rparr>)),
          original_transcript := Some t\<rparr>,
      self\<lparr>current_transcript := t\<rparr>)"
    using Inr by (rule process_tutorial_success)
  then show ?thesis using Inr
    by (simp add: parse_questions_response_nonempty content_fallback_nonempty split: sum.splits)
qed

lemma docker_length: "length docker_transcript = 71"
  by (simp add: docker_transcript_def)

lemma empty_object_structure:
  "bind_exn (empty_object_call (create_processing_prompt docker_transcript (u ''english'')))
     (\<lambda>r. parse_claude_response stub_lib r (u ''english'')) =
   Inr \<lparr>summary = \<lparr>title = u ''Tutorial'', short_summary = [], detailed_summary = [],
                     duration = None, difficulty_level = u ''Intermediate'', key_topics = []\<rparr>,
          action_steps = [], practice_questions = [], original_language = u ''english'',
          ProcessedTutorial.target_language = u ''english'', processing_time = 0,
          original_transcript = None\<rparr>"
  using parse_claude_response_empty_object [of "u ''english''"]
  by (simp add: empty_object_call_def)

subsection \<open>When the model call raises\<close>

lemma prompt_heads_differ:
  "u ''\<newline>'' @ u ''You are an expert tutorial analyzer. Please process this tutorial transcript and provide a structured response.\<newline>'' @ r1
   \<noteq> u ''\<newline>'' @ u ''You are an expert educator. Based on this tutorial transcript, create practice questions to test understanding of the SPECIFIC CONTENT.\<newline>'' @ r2"
  by simp

lemma prompts_differ: "create_processing_prompt t l \<noteq> create_questions_prompt t' l'"
  unfolding create_processing_prompt_def create_questions_prompt_def
  by (rule prompt_heads_differ)

lemma chat_prompt_text_context:
  "chat_prompt_text lib a b c d e ctx m l = chat_prompt_text lib a b c d e ctx' m l
     \<longleftrightarrow> ctx = ctx'"
  unfolding chat_prompt_text_def
  by (simp only: same_append_eq append_same_eq)

lemma last_context_a:
  "last_context_of stub_lib history_a =
     Inr (u ''\<newline>'' @ u ''Previous question: How do I install it?'' @ u ''\<newline>'' @
          u ''Previous answer: A container platform....'' @ u ''\<newline>'')"
  by (simp add: last_context_of_def history_a_def get_def get_or_def truthy_def slice_200_def
      py_str_def)

lemma last_context_b:
  "last_context_of stub_lib history_b =
     Inr (u ''\<newline>'' @ u ''Previous question: How do I install it?'' @ u ''\<newline>'' @
          u ''Previous answer: Docker is a whale....'' @ u ''\<newline>'')"
  by (simp add: last_context_of_def history_b_def get_def get_or_def truthy_def slice_200_def
      py_str_def)

lemma create_chat_prompt_empty:
  "create_chat_prompt_from_dict lib [] m ctx =
     Inr (chat_prompt_text lib (JString (u ''Tutorial'')) (JString []) []
            (u ''Transcript not available'') [] ctx m (JString (u ''english'')))"
  by (simp add: create_chat_prompt_from_dict_def as_dict_def get_or_def py_iter_def
      join_value_def truthy_def)


lemma process_tutorial_call_fails:
  assumes "call (create_processing_prompt t l) = Inl e"
  shows "fst (process_tutorial lib call self t l) = create_fallback_tutorial t l []"
proof -
  have "bind_exn (call (create_processing_prompt t l)) (\<lambda>r. parse_claude_response lib r l) = Inl e"
    using assms by simp
  then show ?thesis by (simp add: process_tutorial_failure)
qed

lemma process_tutorial_questions_call_fails:
  assumes "bind_exn (call (create_processing_prompt t l)) (\<lambda>r. parse_claude_response lib r l) = Inr tut"
    and "call (create_questions_prompt t l) = Inl e"
  shows "fst (process_tutorial lib call self t l) =
     tut\<lparr>practice_questions :=
            create_content_based_fallback_questions lib (self\<lparr>current_transcript := t\<rparr>),
          original_transcript := Some t\<rparr>"
  using process_tutorial_success [where call = call and t = t and l = l and lib = lib
      and self = self, OF assms(1)] assms(2)
  by simp

lemma chat_call_fails:
  assumes "last_context_of lib h = Inr ctx"
    and "create_chat_prompt_from_dict lib td m ctx = Inr prompt"
    and "call prompt = Inl e"
  shows "chat_about_tutorial lib call now td m h =
     Inl (Raised Exception (u ''Chat processing failed: '' @ str_exn e))"
  using assms by (simp add: chat_about_tutorial_def)

text \<open>
  C5 (as amended): when the structuring call raises, \<open>process_tutorial\<close> returns the
  fallback tutorial; when the questions call raises, the tutorial decoded from the
  structuring reply is returned with the content-based fallback questions. In the chat
  path the exception is not turned into a fallback: \<open>chat_about_tutorial\<close> raises an
  exception \<open>Chat processing failed: ...\<close>, and the endpoint answers with status 500.
\<close>

theorem model_failure_handling:
  "(call1 (create_processing_prompt t l) = Inl e1 \<longrightarrow>
      fst (process_tutorial lib call1 self t l) = create_fallback_tutorial t l []) \<and>
   (bind_exn (call2 (create_processing_prompt t l)) (\<lambda>r. parse_claude_response lib r l) = Inr tut \<and>
    call2 (create_questions_prompt t l) = Inl e2 \<longrightarrow>
      fst (process_tutorial lib call2 self t l) =
        tut\<lparr>practice_questions :=
               create_content_based_fallback_questions lib (self\<lparr>current_transcript := t\<rparr>),
             original_transcript := Some t\<rparr>) \<and>
   (last_context_of lib h = Inr ctx \<and> create_chat_prompt_from_dict lib td m ctx = Inr prompt \<and>
    call3 prompt = Inl e3 \<longrightarrow>
      chat_about_tutorial lib call3 now td m h =
        Inl (Raised Exception (u ''Chat processing failed: '' @ str_exn e3)) \<and>
      chat_endpoint lib call3 now \<lparr>tutorial_data = td, user_message = m, chat_history = Some h\<rparr> =
        Inl (HTTPException 500
          (u ''Chat processing failed: '' @ u ''Chat processing failed: '' @ str_exn e3)))"
proof (intro conjI impI)
  assume "call1 (create_processing_prompt t l) = Inl e1"
  then show "fst (process_tutorial lib call1 self t l) = create_fallback_tutorial t l []"
    by (rule process_tutorial_call_fails)
next
  assume "bind_exn (call2 (create_processing_prompt t l)) (\<lambda>r. parse_claude_response lib r l) = Inr tut \<and>
    call2 (create_questions_prompt t l) = Inl e2"
  then show "fst (process_tutorial lib call2 self t l) =
        tut\<lparr>practice_questions :=
               create_content_based_fallback_questions lib (self\<lparr>current_transcript := t\<rparr>),
             original_transcript := Some t\<rparr>"
    by (simp add: process_tutorial_questions_call_fails)
next
  assume a: "last_context_of lib h = Inr ctx \<and> create_chat_prompt_from_dict lib td m ctx = Inr prompt \<and>
    call3 prompt = Inl e3"
  then show c: "chat_about_tutorial lib call3 now td m h =
        Inl (Raised Exception (u ''Chat processing failed: '' @ str_exn e3))"
    by (simp add: chat_call_fails)
  then show "chat_endpoint lib call3 now \<lparr>tutorial_data = td, user_message = m, chat_history = Some h\<rparr> =
        Inl (HTTPException 500
          (u ''Chat processing failed: '' @ u ''Chat processing failed: '' @ str_exn e3))"
    by (simp add: chat_endpoint_def)
qed

lemma structure_only_call_structure:
  "bind_exn (structure_only_call (create_processing_prompt docker_transcript (u ''english'')))
     (\<lambda>r. parse_claude_response stub_lib r (u ''english'')) =
   Inr \<lparr>summary = \<lparr>title = u ''Tutorial'', short_summary = [], detailed_summary = [],
                     duration = None, difficulty_level = u ''Intermediate'', key_topics = []\<rparr>,
          action_steps = [], practice_questions = [], original_language = u ''english'',
          ProcessedTutorial.target_language = u ''english'', processing_time = 0,
          original_transcript = None\<rparr>"
  using parse_claude_response_empty_object [of "u ''english''"]
  by (simp add: structure_only_call_def)

lemma structure_only_call_questions:
  "structure_only_call (create_questions_prompt docker_transcript (u ''english'')) =
     Inl (Raised Exception (u ''timed out''))"
  using prompts_differ [of docker_transcript "u ''english''" docker_transcript "u ''english''"]
  by (simp add: structure_only_call_def)

lemma last_context_empty: "last_context_of lib [] = Inr []"
  by (simp add: last_context_of_def)

theorem model_failure_handling_witness:
  "fst (process_tutorial stub_lib failing_call \<lparr>current_transcript = []\<rparr> docker_transcript
      (u ''english'')) = create_fallback_tutorial docker_transcript (u ''english'') [] \<and>
   practice_questions (fst (process_tutorial stub_lib structure_only_call
      \<lparr>current_transcript = []\<rparr> docker_transcript (u ''english''))) =
     create_content_based_fallback_questions stub_lib \<lparr>current_transcript = docker_transcript\<rparr> \<and>
   chat_endpoint stub_lib failing_call 0
      \<lparr>tutorial_data = [], user_message = u ''hi'', chat_history = Some []\<rparr> =
     Inl (HTTPException 500 (u ''Chat processing failed: Chat processing failed: timed out''))"
proof -
  note h = model_failure_handling [of failing_call docker_transcript "u ''english''"
      "Raised Exception (u ''timed out'')" stub_lib "\<lparr>current_transcript = []\<rparr>"
      structure_only_call _ "Raised Exception (u ''timed out'')" "[]" "[]" "[]" "u ''hi''" _
      failing_call "Raised Exception (u ''timed out'')" 0]
  have 1: "failing_call p = Inl (Raised Exception (u ''timed out''))" for p
    by (simp add: failing_call_def)
  from h 1 have a: "fst (process_tutorial stub_lib failing_call \<lparr>current_transcript = []\<rparr>
      docker_transcript (u ''english'')) = create_fallback_tutorial docker_transcript (u ''english'') []"
    by blast
  from h structure_only_call_structure structure_only_call_questions
  have "fst (process_tutorial stub_lib structure_only_call \<lparr>current_transcript = []\<rparr>
      docker_transcript (u ''english'')) =
    \<lparr>summary = \<lparr>title = u ''Tutorial'', short_summary = [], detailed_summary = [],
                     duration = None, difficulty_level = u ''Intermediate'', key_topics = []\<rparr>,
          action_steps = [], practice_questions = [], original_language = u ''english'',
          ProcessedTutorial.target_language = u ''english'', processing_time = 0,
          original_transcript = None\<rparr>
     \<lparr>practice_questions := create_content_based_fallback_questions stub_lib
          (\<lparr>current_transcript = []\<rparr>\<lparr>current_transcript := docker_transcript\<rparr>),
      original_transcript := Some docker_transcript\<rparr>"
    by blast
  then have b: "practice_questions (fst (process_tutorial stub_lib structure_only_call
      \<lparr>current_transcript = []\<rparr> docker_transcript (u ''english''))) =
     create_content_based_fallback_questions stub_lib \<lparr>current_transcript = docker_transcript\<rparr>"
    by simp
  from h last_context_empty [of stub_lib] create_chat_prompt_empty [of stub_lib "u ''hi''" "[]"] 1
  have "chat_endpoint stub_lib failing_call 0
      \<lparr>tutorial_data = [], user_message = u ''hi'', chat_history = Some []\<rparr> =
     Inl (HTTPException 500 (u ''Chat processing failed: '' @ u ''Chat processing failed: '' @
        str_exn (Raised Exception (u ''timed out''))))"
    by blast
  then have c: "chat_endpoint stub_lib failing_call 0
      \<lparr>tutorial_data = [], user_message = u ''hi'', chat_history = Some []\<rparr> =
     Inl (HTTPException 500 (u ''Chat processing failed: Chat processing failed: timed out''))"
    by simp
  from a b c show ?thesis by blast
qed

text \<open>
  C5 as stated fails in the chat path: with a model call that raises,
  \<open>chat_about_tutorial\<close> raises and the endpoint answers with status 500.
\<close>

theorem chat_failure_counterexample:
  "chat_about_tutorial stub_lib failing_call 0 [] (u ''hi'') [] =
     Inl (Raised Exception (u ''Chat processing failed: timed out'')) \<and>
   chat_endpoint stub_lib failing_call 0
      \<lparr>tutorial_data = [], user_message = u ''hi'', chat_history = None\<rparr> =
     Inl (HTTPException 500 (u ''Chat processing failed: Chat processing failed: timed out''))"
  using chat_call_fails [of stub_lib "[]" "[]" "[]" "u ''hi''" _ failing_call
      "Raised Exception (u ''timed out'')" 0, OF last_context_empty create_chat_prompt_empty]
  by (simp add: failing_call_def chat_endpoint_def)

subsection \<open>The context of a chat request\<close>

text \<open>
  C6 (the code at the failing input): the two histories agree on the most recent
  question and on the answer to it. The context built from each pairs that question
  with the answer of the exchange before, so the prompts the model receives differ.
\<close>

theorem chat_context_pairs_older_answer:
  "drop 2 history_a = drop 2 history_b \<and>
   last_context_of stub_lib history_a =
     Inr (u ''\<newline>'' @ u ''Previous question: How do I install it?'' @ u ''\<newline>'' @
          u ''Previous answer: A container platform....'' @ u ''\<newline>'') \<and>
   last_context_of stub_lib history_b =
     Inr (u ''\<newline>'' @ u ''Previous question: How do I install it?'' @ u ''\<newline>'' @
          u ''Previous answer: Docker is a whale....'' @ u ''\<newline>'') \<and>
   chat_about_tutorial stub_lib echo_call 0 [] (u ''And on Windows?'') history_a \<noteq>
   chat_about_tutorial stub_lib echo_call 0 [] (u ''And on Windows?'') history_b"
proof -
  have 1: "drop 2 history_a = drop 2 history_b"
    by (simp add: history_a_def history_b_def)
  have "u ''\<newline>'' @ u ''Previous question: How do I install it?'' @ u ''\<newline>'' @
          u ''Previous answer: A container platform....'' @ u ''\<newline>'' \<noteq>
        u ''\<newline>'' @ u ''Previous question: How do I install it?'' @ u ''\<newline>'' @
          u ''Previous answer: Docker is a whale....'' @ u ''\<newline>''"
    by simp
  then have "chat_about_tutorial stub_lib echo_call 0 [] (u ''And on Windows?'') history_a \<noteq>
   chat_about_tutorial stub_lib echo_call 0 [] (u ''And on Windows?'') history_b"
    by (simp only: chat_about_tutorial_def last_context_a last_context_b bind_exn.simps
        create_chat_prompt_empty echo_call_def sum.case sum.inject ChatResponse.ext_inject
        chat_prompt_text_context simp_thms)
  with 1 last_context_a last_context_b show ?thesis by blast
qed

subsection \<open>The fallback questions\<close>

lemma filter_find_Some: "List.find P xs = Some t \<Longrightarrow> \<exists>ts. filter P xs = t # ts"
  by (induction xs) (auto split: if_splits)

lemma filter_find_None: "List.find P xs = None \<Longrightarrow> filter P xs = []"
  by (induction xs) (auto split: if_splits)

lemma content_fallback_types:
  "map question_type (create_content_based_fallback_questions lib self) =
     [u ''short_answer'', u ''true_false'', u ''multiple_choice'']"
  by (simp add: create_content_based_fallback_questions_def topic_question_1_def
      generic_question_1_def content_question_2_def topic_question_3_def generic_question_3_def
      split: list.splits)

lemma content_fallback_topics_found:
  assumes "List.find (\<lambda>term. sublist term (lower (unicode_lower lib) (current_transcript self)))
     common_tech_terms = Some t"
  shows "map topic (create_content_based_fallback_questions lib self) =
     [title_ascii t, u ''Tutorial Structure'', title_ascii t]"
proof -
  from filter_find_Some [OF assms] obtain ts where "found_topics lib self = t # ts"
    by (auto simp: found_topics_def)
  then show ?thesis
    by (simp add: create_content_based_fallback_questions_def topic_question_1_def
        content_question_2_def topic_question_3_def)
qed

lemma content_fallback_topics_none:
  assumes "List.find (\<lambda>term. sublist term (lower (unicode_lower lib) (current_transcript self)))
     common_tech_terms = None"
  shows "map topic (create_content_based_fallback_questions lib self) =
     [u ''Main Topic'', u ''Tutorial Structure'', u ''Learning Strategy'']"
proof -
  from filter_find_None [OF assms] have "found_topics lib self = []"
    by (simp add: found_topics_def)
  then show ?thesis
    by (simp add: create_content_based_fallback_questions_def generic_question_1_def
        content_question_2_def generic_question_3_def)
qed

lemma parse_questions_response_fallback:
  assumes "py_find 123 (clean_json_response reply) = -1
     \<or> py_rfind 125 (clean_json_response reply) + 1 = 0
     \<or> (\<forall>qs. bind_exn (json_loads lib (slice (clean_json_response reply)
              (py_find 123 (clean_json_response reply))
              (py_rfind 125 (clean_json_response reply) + 1)))
            (parse_questions_data lib) = Inr qs \<longrightarrow> qs = [])"
  shows "parse_questions_response lib self reply = create_content_based_fallback_questions lib self"
  using assms by (auto simp: parse_questions_response_def Let_def split: sum.splits)

text \<open>
  C3 (as amended): the content-based fallback is a list of exactly 3 questions, of the
  kinds short answer, true/false and multiple choice, in that order. When a vocabulary
  term occurs in the lower-cased stored transcript, the topic of the first and of the
  third question is the first such term in the order of the vocabulary, title-cased
  (the second topic is always \<open>Tutorial Structure\<close>). The decoder never returns an empty
  list, and it returns this fallback whenever the cleaned reply lacks an opening or a
  closing brace, or its decoding raises, or the decoded list is empty.
\<close>

theorem questions_fallback:
  "length (create_content_based_fallback_questions lib self) = 3 \<and>
   map question_type (create_content_based_fallback_questions lib self) =
     [u ''short_answer'', u ''true_false'', u ''multiple_choice''] \<and>
   (List.find (\<lambda>term. sublist term (lower (unicode_lower lib) (current_transcript self)))
      common_tech_terms = Some t \<longrightarrow>
    map topic (create_content_based_fallback_questions lib self) =
      [title_ascii t, u ''Tutorial Structure'', title_ascii t]) \<and>
   parse_questions_response lib self reply \<noteq> [] \<and>
   (py_find 123 (clean_json_response reply) = -1
     \<or> py_rfind 125 (clean_json_response reply) + 1 = 0
     \<or> (\<forall>qs. bind_exn (json_loads lib (slice (clean_json_response reply)
              (py_find 123 (clean_json_response reply))
              (py_rfind 125 (clean_json_response reply) + 1)))
            (parse_questions_data lib) = Inr qs \<longrightarrow> qs = []) \<longrightarrow>
    parse_questions_response lib self reply = create_content_based_fallback_questions lib self)"
  using content_fallback_length [of lib self] content_fallback_types [of lib self]
    content_fallback_topics_found [of lib self t] parse_questions_response_nonempty [of lib self reply]
    parse_questions_response_fallback [of reply lib self]
  by blast

lemma find_docker:
  "List.find (\<lambda>term. sublist term (lower (unicode_lower stub_lib) (current_transcript docker_service)))
     common_tech_terms = Some (u ''docker'')"
  by code_simp

lemma clean_empty: "clean_json_response [] = []"
  by (simp add: clean_json_response_def strip_fences_def sub_lit_ws.simps split_on_def
      clean_lines_def strip_def)

theorem questions_fallback_witness:
  "map topic (parse_questions_response stub_lib docker_service []) =
     [u ''Docker'', u ''Tutorial Structure'', u ''Docker'']"
  using questions_fallback [of stub_lib docker_service "u ''docker''" "[]"] find_docker
  by (simp add: clean_empty py_find_def title_ascii_def ascii_upper_def ascii_lower_def
      ascii_alpha_def)

lemma found_python_docker:
  "found_topics stub_lib python_docker_service = [u ''python'', u ''docker'']"
  by code_simp

text \<open>
  C3 as stated fails: the stored transcript contains \<open>docker\<close>, and also \<open>python\<close>, which
  comes first in the vocabulary; no fallback question has the topic \<open>Docker\<close>.
\<close>

theorem fallback_topic_counterexample:
  "sublist (u ''docker'') (lower (unicode_lower stub_lib) (current_transcript python_docker_service)) \<and>
   map topic (parse_questions_response stub_lib python_docker_service []) =
     [u ''Python'', u ''Tutorial Structure'', u ''Python''] \<and>
   u ''Docker'' \<notin> set (map topic (parse_questions_response stub_lib python_docker_service []))"
proof -
  have 1: "sublist (u ''docker'')
      (lower (unicode_lower stub_lib) (current_transcript python_docker_service))"
    by code_simp
  have "parse_questions_response stub_lib python_docker_service [] =
      create_content_based_fallback_questions stub_lib python_docker_service"
    by (simp add: parse_questions_response_def clean_empty py_find_def)
  then have 2: "map topic (parse_questions_response stub_lib python_docker_service []) =
     [u ''Python'', u ''Tutorial Structure'', u ''Python'']"
    by (simp add: create_content_based_fallback_questions_def found_python_docker
        topic_question_1_def content_question_2_def topic_question_3_def
        title_ascii_def ascii_upper_def ascii_lower_def ascii_alpha_def)
  from 1 2 show ?thesis by simp
qed

subsection \<open>Cleaning the questions reply\<close>

lemma set_strip: "set (strip s) \<subseteq> set s"
proof
  fix c assume "c \<in> set (strip s)"
  then have "c \<in> set (dropWhile isspace (rev (dropWhile isspace s)))"
    by (simp add: strip_def)
  then have "c \<in> set (rev (dropWhile isspace s))" by (rule set_dropWhileD)
  then have "c \<in> set (dropWhile isspace s)" by simp
  then show "c \<in> set s" by (rule set_dropWhileD)
qed

lemma set_join: "set (join sep xs) \<subseteq> set sep \<union> (\<Union>x\<in>set xs. set x)"
  by (induction sep xs rule: join.induct) auto

lemma set_split_acc: "x \<in> set (split_acc sep cur s) \<Longrightarrow> set x \<subseteq> set cur \<union> set s"
proof (induction s arbitrary: cur)
  case Nil
  then show ?case by simp
next
  case (Cons c cs)
  show ?case
  proof (cases "c = sep")
    case True
    with Cons.prems have "x = cur \<or> x \<in> set (split_acc sep [] cs)" by simp
    then show ?thesis using Cons.IH [of "[]"] by auto
  next
    case False
    with Cons.prems have "x \<in> set (split_acc sep (cur @ [c]) cs)" by simp
    then show ?thesis using Cons.IH [of "cur @ [c]"] by auto
  qed
qed

lemma set_split_on: "x \<in> set (split_on sep s) \<Longrightarrow> set x \<subseteq> set s"
  using set_split_acc [of x sep "[]" s] by (simp add: split_on_def)

lemma set_replace_char: "set (replace_char c r s) \<subseteq> set s \<union> set r"
  by (auto simp: replace_char_def split: if_splits)

lemma set_escape_line: "set (escape_line line) \<subseteq> set line \<union> {92, 110, 114, 116}"
proof -
  have 1: "set (replace_char 10 ([92] @ u ''n'') line) \<subseteq> set line \<union> {92, 110}"
    using set_replace_char [of 10 "[92] @ u ''n''" line] by auto
  have 2: "set (replace_char 13 ([92] @ u ''r'') (replace_char 10 ([92] @ u ''n'') line))
      \<subseteq> set (replace_char 10 ([92] @ u ''n'') line) \<union> {92, 114}"
    using set_replace_char [of 13 "[92] @ u ''r''" "replace_char 10 ([92] @ u ''n'') line"] by auto
  have 3: "set (escape_line line)
      \<subseteq> set (replace_char 13 ([92] @ u ''r'') (replace_char 10 ([92] @ u ''n'') line)) \<union> {92, 116}"
    unfolding escape_line_def
    using set_replace_char [of 9 "[92] @ u ''t''"
        "replace_char 13 ([92] @ u ''r'') (replace_char 10 ([92] @ u ''n'') line)"] by auto
  from 1 2 3 show ?thesis by blast
qed

lemma set_clean_lines:
  assumes "x \<in> set (clean_lines ls)"
  shows "\<exists>line\<in>set ls. set x \<subseteq> set line \<union> {92, 110, 114, 116}"
proof -
  from assms obtain line where line: "line \<in> set ls"
      and x: "x = (if structural line then line else escape_line line)"
    by (auto simp: clean_lines_def)
  have "set x \<subseteq> set line \<union> {92, 110, 114, 116}"
    using x set_escape_line [of line] by (auto split: if_splits)
  with line show ?thesis by blast
qed

lemma clean_json_response_chars:
  assumes "c \<in> set (clean_json_response s)"
  shows "\<not> control_char c"
proof -
  define cleaned where "cleaned = filter (\<lambda>c. \<not> control_char c) (strip_fences s)"
  have ok: "\<not> control_char x" if "x \<in> set cleaned" for x
    using that by (simp add: cleaned_def)
  from assms have "c \<in> set (join (u ''\<newline>'') (clean_lines (split_on 10 cleaned)))"
    using set_strip by (auto simp: clean_json_response_def cleaned_def Let_def)
  then have "c = 10 \<or> (\<exists>x\<in>set (clean_lines (split_on 10 cleaned)). c \<in> set x)"
    using set_join [of "u ''\<newline>''" "clean_lines (split_on 10 cleaned)"] by auto
  then show ?thesis
  proof
    assume "c = 10"
    then show ?thesis by (simp add: control_char_def)
  next
    assume "\<exists>x\<in>set (clean_lines (split_on 10 cleaned)). c \<in> set x"
    then obtain x where x: "x \<in> set (clean_lines (split_on 10 cleaned))" and c: "c \<in> set x"
      by blast
    from set_clean_lines [OF x] obtain line where line: "line \<in> set (split_on 10 cleaned)"
        and sub: "set x \<subseteq> set line \<union> {92, 110, 114, 116}"
      by blast
    from c sub have "c \<in> set line \<or> c \<in> {92, 110, 114, 116}" by blast
    then show ?thesis
    proof
      assume "c \<in> set line"
      with set_split_on [OF line] have "c \<in> set cleaned" by blast
      then show ?thesis by (rule ok)
    next
      assume "c \<in> {92, 110, 114, 116}"
      then show ?thesis by (auto simp: control_char_def)
    qed
  qed
qed

lemma sub_fence_two:
  assumes "\<not> prefix [96, 96] cs"
  shows "\<not> prefix [96, 96] (sub_lit_ws [96, 96, 96] cs)"
proof (cases cs)
  case Nil
  then show ?thesis by (simp add: sub_lit_ws.simps)
next
  case (Cons c cs')
  show ?thesis
  proof (cases "c = 96")
    case False
    with Cons show ?thesis by (simp add: sub_lit_ws.simps)
  next
    case True
    show ?thesis
    proof (cases cs')
      case Nil
      with Cons True show ?thesis by (simp add: sub_lit_ws.simps)
    next
      case (Cons d cs'')
      with assms \<open>cs = c # cs'\<close> True have "d \<noteq> 96" by auto
      with Cons \<open>cs = c # cs'\<close> True show ?thesis by (simp add: sub_lit_ws.simps)
    qed
  qed
qed

lemma sub_fence_none: "\<not> sublist [96, 96, 96] (sub_lit_ws [96, 96, 96] s)"
proof (induction "[96, 96, 96] :: pystr" s rule: sub_lit_ws.induct)
  case 1
  then show ?case by (simp add: sub_lit_ws.simps)
next
  case (2 c cs)
  show ?case
  proof (cases "prefix [96, 96, 96] (c # cs)")
    case True
    have "sub_lit_ws [96, 96, 96] (c # cs) =
        sub_lit_ws [96, 96, 96] (dropWhile isspace (drop (length [96, 96, 96 :: nat]) (c # cs)))"
      using True by (subst sub_lit_ws.simps) simp
    then show ?thesis using 2(1) True by simp
  next
    case False
    have rest: "\<not> sublist [96, 96, 96] (sub_lit_ws [96, 96, 96] cs)"
      using 2(2) False by simp
    have "\<not> prefix [96, 96, 96] (c # sub_lit_ws [96, 96, 96] cs)"
    proof
      assume p: "prefix [96, 96, 96] (c # sub_lit_ws [96, 96, 96] cs)"
      then have c: "c = 96" and "prefix [96, 96] (sub_lit_ws [96, 96, 96] cs)" by auto
      then have "prefix [96, 96] cs" using sub_fence_two [of cs] by blast
      with c False show False by auto
    qed
    moreover have "sub_lit_ws [96, 96, 96] (c # cs) = c # sub_lit_ws [96, 96, 96] cs"
      using False by (subst sub_lit_ws.simps) auto
    ultimately show ?thesis using rest
      by (simp add: sublist_Cons_right)
  qed
qed

lemma strip_fences_none: "\<not> sublist (u ''```'') (strip_fences s)"
  using sub_fence_none [of "sub_lit_ws (u ''```json'') s"] by (simp add: strip_fences_def)

lemma set_sub_lit_ws: "set (sub_lit_ws lit s) \<subseteq> set s"
proof (induction lit s rule: sub_lit_ws.induct)
  case (1 lit)
  then show ?case by (simp add: sub_lit_ws.simps)
next
  case (2 lit c cs)
  show ?case
  proof (cases "lit \<noteq> [] \<and> prefix lit (c # cs)")
    case True
    have "sub_lit_ws lit (c # cs) =
        sub_lit_ws lit (dropWhile isspace (drop (length lit) (c # cs)))"
      using True by (subst sub_lit_ws.simps) simp
    moreover have "set (dropWhile isspace (drop (length lit) (c # cs))) \<subseteq> set (c # cs)"
      using set_dropWhileD set_drop_subset by fast
    ultimately show ?thesis using 2(1) True by auto
  next
    case False
    have "sub_lit_ws lit (c # cs) = c # sub_lit_ws lit cs"
      using False by (subst sub_lit_ws.simps) auto
    then show ?thesis using 2(2) False by auto
  qed
qed

lemma sublist_skip:
  assumes "sublist (96 # f) (r @ rest)" and "96 \<notin> set r"
  shows "sublist (96 # f) rest"
  using assms
proof (induction r)
  case Nil
  then show ?case by simp
next
  case (Cons a r)
  from Cons.prems have "a \<noteq> 96" by auto
  with Cons.prems have "sublist (96 # f) (r @ rest)"
    by (auto simp: sublist_Cons_right)
  with Cons show ?case by auto
qed

lemma prefix_replace_char:
  assumes "prefix g (replace_char c r s)" and "set g \<subseteq> {96}" and "r \<noteq> []" and "96 \<notin> set r"
  shows "prefix g s"
  using assms
proof (induction s arbitrary: g)
  case Nil
  then show ?case by (simp add: replace_char_def)
next
  case (Cons x xs)
  show ?case
  proof (cases g)
    case Nil
    then show ?thesis by simp
  next
    case (Cons b g')
    with Cons.prems(2) have b: "b = 96" and g': "set g' \<subseteq> {96}" by auto
    have rc: "replace_char c r (x # xs) = (if x = c then r else [x]) @ replace_char c r xs"
      by (simp add: replace_char_def)
    show ?thesis
    proof (cases "x = c")
      case True
      from Cons.prems(3) obtain a r' where r: "r = a # r'" by (cases r) auto
      with Cons.prems(4) have "a \<noteq> 96" by auto
      with Cons.prems(1) rc True r \<open>g = b # g'\<close> b show ?thesis by auto
    next
      case False
      with Cons.prems(1) rc \<open>g = b # g'\<close> have "x = b" and "prefix g' (replace_char c r xs)"
        by auto
      with Cons.IH [of g'] g' Cons.prems(3,4) \<open>g = b # g'\<close> show ?thesis by auto
    qed
  qed
qed

lemma sublist_replace_char:
  assumes "sublist (96 # f) (replace_char c r s)" and "set f \<subseteq> {96}" and "r \<noteq> []"
    and "96 \<notin> set r"
  shows "sublist (96 # f) s"
  using assms
proof (induction s)
  case Nil
  then show ?case by (simp add: replace_char_def)
next
  case (Cons x xs)
  have rc: "replace_char c r (x # xs) = (if x = c then r else [x]) @ replace_char c r xs"
    by (simp add: replace_char_def)
  show ?case
  proof (cases "x = c")
    case True
    with Cons.prems(1) rc have "sublist (96 # f) (r @ replace_char c r xs)" by simp
    then have "sublist (96 # f) (replace_char c r xs)"
      using Cons.prems(4) by (rule sublist_skip)
    with Cons have "sublist (96 # f) xs" by blast
    then show ?thesis by (simp add: sublist_Cons_right)
  next
    case False
    with Cons.prems(1) rc have "sublist (96 # f) (x # replace_char c r xs)" by simp
    then have "prefix (96 # f) (x # replace_char c r xs) \<or> sublist (96 # f) (replace_char c r xs)"
      by (simp add: sublist_Cons_right)
    then show ?thesis
    proof
      assume "prefix (96 # f) (x # replace_char c r xs)"
      then have "prefix (96 # f) (replace_char c r (x # xs))" using rc False by simp
      moreover have "set (96 # f) \<subseteq> {96}" using Cons.prems(2) by simp
      ultimately have "prefix (96 # f) (x # xs)"
        using Cons.prems(3,4) by (rule prefix_replace_char)
      then show ?thesis by (rule prefix_imp_sublist)
    next
      assume "sublist (96 # f) (replace_char c r xs)"
      with Cons have "sublist (96 # f) xs" by blast
      then show ?thesis by (simp add: sublist_Cons_right)
    qed
  qed
qed

lemma sublist_escape_line:
  assumes "sublist [96, 96, 96] (escape_line line)"
  shows "sublist [96, 96, 96] line"
proof -
  from assms have "sublist [96, 96, 96]
      (replace_char 13 ([92] @ u ''r'') (replace_char 10 ([92] @ u ''n'') line))"
    unfolding escape_line_def by (rule sublist_replace_char) auto
  then have "sublist [96, 96, 96] (replace_char 10 ([92] @ u ''n'') line)"
    by (rule sublist_replace_char) auto
  then show ?thesis by (rule sublist_replace_char) auto
qed

lemma sublist_split_acc: "x \<in> set (split_acc sep cur s) \<Longrightarrow> sublist x (cur @ s)"
proof (induction s arbitrary: cur)
  case Nil
  then show ?case by simp
next
  case (Cons c cs)
  show ?case
  proof (cases "c = sep")
    case True
    with Cons.prems have "x = cur \<or> x \<in> set (split_acc sep [] cs)" by simp
    then show ?thesis
    proof
      assume "x = cur"
      then show ?thesis by (simp add: prefix_imp_sublist)
    next
      assume "x \<in> set (split_acc sep [] cs)"
      then have "sublist x cs" using Cons.IH [of "[]"] by simp
      moreover have "sublist cs (cur @ c # cs)"
        using sublist_appendI [of cs "cur @ [c]" "[]"] by simp
      ultimately show ?thesis by (rule sublist_order.order_trans)
    qed
  next
    case False
    with Cons.prems have "x \<in> set (split_acc sep (cur @ [c]) cs)" by simp
    then show ?thesis using Cons.IH [of "cur @ [c]"] by simp
  qed
qed

lemma sublist_join:
  assumes "sublist (96 # f) (join [10] ls)" and "set f \<subseteq> {96}"
  shows "\<exists>l\<in>set ls. sublist (96 # f) l"
  using assms
proof (induction "[10] :: pystr" ls rule: join.induct)
  case 1
  then show ?case by simp
next
  case (2 x)
  then show ?case by simp
next
  case (3 x y ys)
  from 3(2) have "sublist (96 # f) (x @ 10 # join [10] (y # ys))" by simp
  then consider "sublist (96 # f) x" | "sublist (96 # f) (10 # join [10] (y # ys))"
    | g1 g2 where "96 # f = g1 @ g2" "suffix g1 x" "prefix g2 (10 # join [10] (y # ys))"
    by (auto simp: sublist_append)
  then show ?case
  proof cases
    case 1
    then show ?thesis by auto
  next
    case 2
    then have "sublist (96 # f) (join [10] (y # ys))" by (auto simp: sublist_Cons_right)
    with 3 show ?thesis by auto
  next
    case 3
    show ?thesis
    proof (cases g2)
      case Nil
      with 3 have "suffix (96 # f) x" by simp
      then have "sublist (96 # f) x" by (rule suffix_imp_sublist)
      then show ?thesis by auto
    next
      case (Cons b g2')
      with 3(3) have "b = 10" by simp
      moreover from 3(1) Cons \<open>set f \<subseteq> {96}\<close> have "b = 96"
        by (cases g1) auto
      ultimately show ?thesis by simp
    qed
  qed
qed

lemma sublist_strip: "sublist x (strip s) \<Longrightarrow> sublist x s"
proof -
  assume a: "sublist x (strip s)"
  have "prefix (strip s) (dropWhile isspace s)"
  proof -
    have "suffix (dropWhile isspace (rev (dropWhile isspace s))) (rev (dropWhile isspace s))"
      by (rule suffix_dropWhile)
    then show ?thesis
      unfolding strip_def by (simp add: suffix_to_prefix)
  qed
  then have "sublist (strip s) (dropWhile isspace s)" by (rule prefix_imp_sublist)
  moreover have "sublist (dropWhile isspace s) s"
    using suffix_dropWhile [of isspace s] by (rule suffix_imp_sublist)
  ultimately show ?thesis using a sublist_order.order_trans by blast
qed

lemma clean_json_response_no_fence:
  assumes "\<forall>c\<in>set s. \<not> control_char c"
  shows "\<not> sublist [96, 96, 96] (clean_json_response s)"
proof
  assume a: "sublist [96, 96, 96] (clean_json_response s)"
  have "set (strip_fences s) \<subseteq> set s"
    unfolding strip_fences_def using set_sub_lit_ws by blast
  with assms have keep: "filter (\<lambda>c. \<not> control_char c) (strip_fences s) = strip_fences s"
    by (auto simp: filter_id_conv)
  from a have "sublist [96, 96, 96] (join [10] (clean_lines (split_on 10 (strip_fences s))))"
    using sublist_strip by (simp add: clean_json_response_def keep)
  then obtain l where l: "l \<in> set (clean_lines (split_on 10 (strip_fences s)))"
      and fl: "sublist [96, 96, 96] l"
    using sublist_join [of "[96, 96]"] by auto
  from l obtain line where line: "line \<in> set (split_on 10 (strip_fences s))"
      and eq: "l = (if structural line then line else escape_line line)"
    by (auto simp: clean_lines_def)
  from fl eq have "sublist [96, 96, 96] line"
    using sublist_escape_line by (auto split: if_splits)
  moreover from line have "sublist line (strip_fences s)"
    using sublist_split_acc [of line 10 "[]" "strip_fences s"] by (simp add: split_on_def)
  ultimately have "sublist [96, 96, 96] (strip_fences s)"
    using sublist_order.order_trans by blast
  then show False using strip_fences_none [of s] by simp
qed

text \<open>
  C4 (as amended): the output of \<open>_clean_json_response\<close> has no character of the class
  the third substitution deletes: no character below 0x20 other than tab (0x09),
  newline (0x0A) and carriage return (0x0D), and no 0x7F. The two substitutions for the
  markers of a fenced code block leave no three backticks in a row; and when the reply
  has no character of the deleted class, the output has no three backticks in a row.
\<close>

theorem clean_json_response_keeps_no_control:
  "(\<forall>c\<in>set (clean_json_response s). \<not> control_char c) \<and>
   (\<forall>c\<in>set (clean_json_response s). c < 32 \<longrightarrow> c = 9 \<or> c = 10 \<or> c = 13) \<and>
   127 \<notin> set (clean_json_response s) \<and>
   \<not> sublist (u ''```'') (strip_fences s) \<and>
   ((\<forall>c\<in>set s. \<not> control_char c) \<longrightarrow> \<not> sublist (u ''```'') (clean_json_response s))"
proof -
  have 1: "\<forall>c\<in>set (clean_json_response s). \<not> control_char c"
    using clean_json_response_chars by blast
  have 2: "c = 9 \<or> c = 10 \<or> c = 13" if "\<not> control_char c" and "c < 32" for c
    using that unfolding control_char_def by arith
  have 3: "control_char 127" by (simp add: control_char_def)
  have 4: "(\<forall>c\<in>set s. \<not> control_char c) \<longrightarrow> \<not> sublist (u ''```'') (clean_json_response s)"
    using clean_json_response_no_fence [of s] by simp
  from 1 2 3 4 strip_fences_none [of s] show ?thesis by blast
qed

theorem clean_json_response_keeps_no_control_witness:
  "clean_json_response (u ''```json\<newline>{x: 1}\<newline>```'') = u ''{x: 1}'' \<and>
   \<not> sublist (u ''```'') (clean_json_response (u ''```json\<newline>{x: 1}\<newline>```'')) \<and>
   1 \<notin> set (clean_json_response (u ''{'' @ [1, 9] @ u ''x: 1}''))"
proof -
  have v: "clean_json_response (u ''```json\<newline>{x: 1}\<newline>```'') = u ''{x: 1}''"
    by (simp add: clean_json_response_def strip_fences_def sub_lit_ws.simps isspace_def
        control_char_def split_on_def clean_lines_def structural_def escape_line_def
        replace_char_def strip_def)
  have plain: "\<forall>c\<in>set (u ''```json\<newline>{x: 1}\<newline>```''). \<not> control_char c"
    by (simp add: control_char_def)
  from clean_json_response_keeps_no_control [of "u ''```json\<newline>{x: 1}\<newline>```''"] plain
  have f: "\<not> sublist (u ''```'') (clean_json_response (u ''```json\<newline>{x: 1}\<newline>```''))"
    by blast
  from clean_json_response_keeps_no_control [of "u ''{'' @ [1, 9] @ u ''x: 1}''"]
  have "\<forall>c\<in>set (clean_json_response (u ''{'' @ [1, 9] @ u ''x: 1}'')). \<not> control_char c"
    by blast
  moreover have "control_char 1" by (simp add: control_char_def)
  ultimately have "1 \<notin> set (clean_json_response (u ''{'' @ [1, 9] @ u ''x: 1}''))"
    by blast
  with v f show ?thesis by blast
qed

text \<open>
  C4 as stated fails: a carriage return (0x0D) in a line with a brace stays in the
  output.
\<close>

theorem carriage_return_counterexample:
  "clean_json_response (u ''{'' @ [13] @ u ''}'') = [123, 13, 125] \<and>
   13 \<in> set (clean_json_response (u ''{'' @ [13] @ u ''}'')) \<and>
   (13::nat) < 32 \<and> (13::nat) \<noteq> 10 \<and> (13::nat) \<noteq> 9"
proof -
  have "clean_json_response (u ''{'' @ [13] @ u ''}'') = [123, 13, 125]"
    by (simp add: clean_json_response_def strip_fences_def sub_lit_ws.simps isspace_def
      control_char_def split_on_def clean_lines_def structural_def escape_line_def
      replace_char_def strip_def)
  then show ?thesis by simp
qed

subsection \<open>Decoding the structuring reply\<close>

lemma bind_exn_Inr: "bind_exn m f = Inr y \<longleftrightarrow> (\<exists>x. m = Inr x \<and> f x = Inr y)"
  by (cases m) auto

lemma coerce_detailed_summary_cases:
  "coerce_detailed_summary lib (JString s) = s"
  "coerce_detailed_summary lib (JArray items) =
     join (u ''\<newline>'') (map (\<lambda>item. [8226] @ u '' '' @ py_str lib item) items)"
  "coerce_detailed_summary lib (JObject obj) = py_repr lib (JObject obj)"
  by (simp_all add: coerce_detailed_summary_def py_str_def)

lemma get_or_absent: "map_of d k = None \<Longrightarrow> get_or d k dflt = dflt"
  by (simp add: get_or_def)

lemma get_absent: "map_of d k = None \<Longrightarrow> get d k = JNull"
  by (simp add: get_def)

lemma build_tutorial_fields:
  assumes "build_tutorial lib (JObject d) l = Inr tut"
  shows "title (summary tut) = py_str lib (get_or d (u ''title'') (JString (u ''Tutorial'')))"
    and "short_summary (summary tut) = py_str lib (get_or d (u ''short_summary'') (JString []))"
    and "detailed_summary (summary tut) =
           coerce_detailed_summary lib (get_or d (u ''detailed_summary'') (JString []))"
    and "difficulty_level (summary tut) =
           py_str lib (get_or d (u ''difficulty_level'') (JString (u ''Intermediate'')))"
    and "pydantic_opt_str lib (get d (u ''duration'')) = Inr (duration (summary tut))"
    and "pydantic_str_list lib
           (case get d (u ''key_topics'') of JArray xs \<Rightarrow> JArray xs | _ \<Rightarrow> JArray [])
         = Inr (key_topics (summary tut))"
  using assms
  by (auto simp: build_tutorial_def as_dict_def bind_exn_Inr)

lemma build_tutorial_plain:
  assumes "map_of d (u ''duration'') = None" and "map_of d (u ''key_topics'') = None"
    and "map_of d (u ''action_steps'') = None"
  shows "build_tutorial lib (JObject d) l =
     Inr \<lparr>summary =
            \<lparr>title = py_str lib (get_or d (u ''title'') (JString (u ''Tutorial''))),
             short_summary = py_str lib (get_or d (u ''short_summary'') (JString [])),
             detailed_summary =
               coerce_detailed_summary lib (get_or d (u ''detailed_summary'') (JString [])),
             duration = None,
             difficulty_level =
               py_str lib (get_or d (u ''difficulty_level'') (JString (u ''Intermediate''))),
             key_topics = []\<rparr>,
          action_steps = [], practice_questions = [], original_language = u ''english'',
          ProcessedTutorial.target_language = l, processing_time = 0,
          original_transcript = None\<rparr>"
  using assms
  by (simp add: build_tutorial_def as_dict_def get_absent get_or_absent pydantic_opt_str_def
      pydantic_str_list_def py_iter_def)

lemma build_tutorial_duration_rejected:
  assumes "map_of d (u ''duration'') = Some v" and "v \<noteq> JNull" and "\<forall>s. v \<noteq> JString s"
    and "validate_str lib v = None"
  shows "build_tutorial lib (JObject d) l = Inl (Raised ValidationError (runtime_msg lib ValidationError v))"
  using assms
  by (cases v) (simp_all add: build_tutorial_def as_dict_def get_def pydantic_opt_str_def
      pydantic_str_def raise_exn_def)

lemma parse_claude_response_decoded:
  assumes "json_loads lib (slice reply (py_find 123 reply) (py_rfind 125 reply + 1)) = Inr data"
  shows "parse_claude_response lib reply l =
     (case build_tutorial lib data l of Inl e \<Rightarrow> Inl (reraise_parse e) | Inr t \<Rightarrow> Inr t)"
  using assms by (simp add: parse_claude_response_def Let_def)

lemma mapM_total:
  assumes "\<And>x. x \<in> set xs \<Longrightarrow> \<exists>y. f x = Inr y"
  shows "\<exists>ys. mapM f xs = Inr ys"
  using assms
proof (induction xs)
  case Nil
  then show ?case by simp
next
  case (Cons x xs)
  from Cons.prems obtain y where y: "f x = Inr y" by auto
  from Cons obtain ys where "mapM f xs = Inr ys" by auto
  with y show ?case by simp
qed

lemma pydantic_opt_str_plain:
  "pydantic_opt_str lib JNull = Inr None"
  "pydantic_opt_str lib (JString txt) = Inr (Some txt)"
  by (simp_all add: pydantic_opt_str_def pydantic_str_def)

lemma mapM_pydantic_strings: "mapM (pydantic_str lib) (map JString ts) = Inr ts"
  by (induction ts) (simp_all add: pydantic_str_def)

lemma parse_step_exact:
  assumes "py_int lib (get_or sd (u ''step_number'') (JInt 1)) = Inr n"
    and "pydantic_opt_str lib (get sd (u ''estimated_time'')) = Inr et"
  shows "parse_step lib (JObject sd) =
     Inr \<lparr>step_number = n,
          ActionStep.title = py_str lib (get_or sd (u ''title'') (JString [])),
          description = py_str lib (get_or sd (u ''description'') (JString [])),
          estimated_time = et,
          completed = False\<rparr>"
  using assms by (simp add: parse_step_def as_dict_def)

lemma build_tutorial_exact:
  assumes "pydantic_opt_str lib (get d (u ''duration'')) = Inr dur"
    and "pydantic_str_list lib
          (case get d (u ''key_topics'') of JArray xs \<Rightarrow> JArray xs | _ \<Rightarrow> JArray []) = Inr topics"
    and "py_iter lib (get_or d (u ''action_steps'') (JArray [])) = Inr elems"
    and "mapM (parse_step lib) elems = Inr steps"
  shows "build_tutorial lib (JObject d) l =
     Inr \<lparr>summary =
            \<lparr>title = py_str lib (get_or d (u ''title'') (JString (u ''Tutorial''))),
             short_summary = py_str lib (get_or d (u ''short_summary'') (JString [])),
             detailed_summary =
               coerce_detailed_summary lib (get_or d (u ''detailed_summary'') (JString [])),
             duration = dur,
             difficulty_level =
               py_str lib (get_or d (u ''difficulty_level'') (JString (u ''Intermediate''))),
             key_topics = topics\<rparr>,
          action_steps = steps, practice_questions = [], original_language = u ''english'',
          ProcessedTutorial.target_language = l, processing_time = 0,
          original_transcript = None\<rparr>"
  using assms by (simp add: build_tutorial_def as_dict_def)

lemma build_tutorial_steps:
  assumes "build_tutorial lib (JObject d) l = Inr tut"
  shows "\<exists>elems. py_iter lib (get_or d (u ''action_steps'') (JArray [])) = Inr elems \<and>
     mapM (parse_step lib) elems = Inr (action_steps tut)"
  using assms by (auto simp: build_tutorial_def as_dict_def bind_exn_Inr)

lemma build_tutorial_prompt_format:
  assumes "get d (u ''duration'') = JNull \<or> (\<exists>txt. get d (u ''duration'') = JString txt)"
    and "\<forall>xs. get d (u ''key_topics'') = JArray xs \<longrightarrow> (\<exists>ts. xs = map JString ts)"
    and "get_or d (u ''action_steps'') (JArray []) = JArray (map JObject sds)"
    and "\<forall>sd\<in>set sds.
            (\<exists>n. get_or sd (u ''step_number'') (JInt 1) = JInt n) \<and>
            (get sd (u ''estimated_time'') = JNull \<or>
             (\<exists>txt. get sd (u ''estimated_time'') = JString txt))"
  shows "\<exists>tut. build_tutorial lib (JObject d) l = Inr tut"
proof -
  from assms(1) obtain dur where dur: "pydantic_opt_str lib (get d (u ''duration'')) = Inr dur"
    by (auto simp: pydantic_opt_str_plain)
  have "\<exists>topics. pydantic_str_list lib
      (case get d (u ''key_topics'') of JArray xs \<Rightarrow> JArray xs | _ \<Rightarrow> JArray []) = Inr topics"
  proof (cases "get d (u ''key_topics'')")
    case (JArray xs)
    with assms(2) obtain ts where "xs = map JString ts" by auto
    with JArray show ?thesis by (simp add: pydantic_str_list_def mapM_pydantic_strings)
  qed (simp_all add: pydantic_str_list_def)
  then obtain topics where topics: "pydantic_str_list lib
      (case get d (u ''key_topics'') of JArray xs \<Rightarrow> JArray xs | _ \<Rightarrow> JArray []) = Inr topics"
    by blast
  have iter: "py_iter lib (get_or d (u ''action_steps'') (JArray [])) = Inr (map JObject sds)"
    using assms(3) by (simp add: py_iter_def)
  have "\<exists>step. parse_step lib x = Inr step" if "x \<in> set (map JObject sds)" for x
  proof -
    from that obtain sd where sd: "sd \<in> set sds" and x: "x = JObject sd" by auto
    from assms(4) sd obtain n where n: "get_or sd (u ''step_number'') (JInt 1) = JInt n"
      and "get sd (u ''estimated_time'') = JNull \<or>
             (\<exists>txt. get sd (u ''estimated_time'') = JString txt)"
      by blast
    then obtain et where "pydantic_opt_str lib (get sd (u ''estimated_time'')) = Inr et"
      by (auto simp: pydantic_opt_str_plain)
    moreover from n have "py_int lib (get_or sd (u ''step_number'') (JInt 1)) = Inr n"
      by (simp add: py_int_def)
    ultimately show ?thesis using x by (simp add: parse_step_exact)
  qed
  then obtain steps where "mapM (parse_step lib) (map JObject sds) = Inr steps"
    using mapM_total [of "map JObject sds" "parse_step lib"] by blast
  with dur topics iter show ?thesis by (simp add: build_tutorial_exact)
qed

text \<open>
  C8 (as amended): when the structuring reply is located and decodes to an object,
  \<open>_parse_claude_response\<close> returns a tutorial exactly when the duration, the key topics
  and every action step pass the checks of the schema, whatever the values of the title,
  the short summary, the detailed summary and the difficulty are; the tutorial it returns
  is then this one. The detailed summary is one string: a string is kept as it arrives,
  a list is joined into one string, one line per item, each line starting with a bullet
  and a space, and an object (or any other value) is stringified rather than rejected.
  Title, short summary and difficulty are stringified too. The action steps are the steps
  decoded from the elements of the payload's \<open>action_steps\<close>, in their order. A payload in
  the format the prompt asks for (a duration that is \<open>null\<close> or a string, key topics that
  are strings, action steps that are objects with an integer step number and an estimated
  time that is \<open>null\<close> or a string) always yields a tutorial, and so does a payload without
  duration, key topics and action steps. A missing duration gives \<open>None\<close>, a missing
  difficulty \<open>Intermediate\<close>, missing key topics the empty list. A duration that is
  neither \<open>null\<close> nor a string is not stringified: when pydantic rejects it, the decoding
  raises.
\<close>

theorem structuring_coercions:
  assumes "json_loads lib (slice reply (py_find 123 reply) (py_rfind 125 reply + 1)) = Inr (JObject d)"
  shows "(\<forall>dur topics elems steps.
        pydantic_opt_str lib (get d (u ''duration'')) = Inr dur \<and>
        pydantic_str_list lib
          (case get d (u ''key_topics'') of JArray xs \<Rightarrow> JArray xs | _ \<Rightarrow> JArray []) = Inr topics \<and>
        py_iter lib (get_or d (u ''action_steps'') (JArray [])) = Inr elems \<and>
        mapM (parse_step lib) elems = Inr steps \<longrightarrow>
        parse_claude_response lib reply l =
          Inr \<lparr>summary =
            \<lparr>title = py_str lib (get_or d (u ''title'') (JString (u ''Tutorial''))),
             short_summary = py_str lib (get_or d (u ''short_summary'') (JString [])),
             detailed_summary =
               coerce_detailed_summary lib (get_or d (u ''detailed_summary'') (JString [])),
             duration = dur,
             difficulty_level =
               py_str lib (get_or d (u ''difficulty_level'') (JString (u ''Intermediate''))),
             key_topics = topics\<rparr>,
          action_steps = steps, practice_questions = [], original_language = u ''english'',
          ProcessedTutorial.target_language = l, processing_time = 0,
          original_transcript = None\<rparr>) \<and>
     ((get d (u ''duration'') = JNull \<or> (\<exists>txt. get d (u ''duration'') = JString txt)) \<and>
      (\<forall>xs. get d (u ''key_topics'') = JArray xs \<longrightarrow> (\<exists>ts. xs = map JString ts)) \<and>
      (\<exists>sds. get_or d (u ''action_steps'') (JArray []) = JArray (map JObject sds) \<and>
         (\<forall>sd\<in>set sds.
            (\<exists>n. get_or sd (u ''step_number'') (JInt 1) = JInt n) \<and>
            (get sd (u ''estimated_time'') = JNull \<or>
             (\<exists>txt. get sd (u ''estimated_time'') = JString txt)))) \<longrightarrow>
        (\<exists>tut. parse_claude_response lib reply l = Inr tut)) \<and>
     (\<forall>tut. parse_claude_response lib reply l = Inr tut \<longrightarrow>
       (\<exists>elems. py_iter lib (get_or d (u ''action_steps'') (JArray [])) = Inr elems \<and>
          mapM (parse_step lib) elems = Inr (action_steps tut)) \<and>
       pydantic_opt_str lib (get d (u ''duration'')) = Inr (duration (summary tut)) \<and>
       pydantic_str_list lib
         (case get d (u ''key_topics'') of JArray xs \<Rightarrow> JArray xs | _ \<Rightarrow> JArray [])
         = Inr (key_topics (summary tut)) \<and>
       title (summary tut) = py_str lib (get_or d (u ''title'') (JString (u ''Tutorial''))) \<and>
       short_summary (summary tut) = py_str lib (get_or d (u ''short_summary'') (JString [])) \<and>
       detailed_summary (summary tut) =
         coerce_detailed_summary lib (get_or d (u ''detailed_summary'') (JString [])) \<and>
       difficulty_level (summary tut) =
         py_str lib (get_or d (u ''difficulty_level'') (JString (u ''Intermediate''))) \<and>
       (map_of d (u ''duration'') = None \<longrightarrow> duration (summary tut) = None) \<and>
       (map_of d (u ''difficulty_level'') = None \<longrightarrow>
          difficulty_level (summary tut) = u ''Intermediate'') \<and>
       (map_of d (u ''key_topics'') = None \<longrightarrow> key_topics (summary tut) = [])) \<and>
     coerce_detailed_summary lib (JString s) = s \<and>
     coerce_detailed_summary lib (JArray items) =
       join (u ''\<newline>'') (map (\<lambda>item. [8226] @ u '' '' @ py_str lib item) items) \<and>
     coerce_detailed_summary lib (JObject obj) = py_repr lib (JObject obj) \<and>
     (map_of d (u ''duration'') = None \<and> map_of d (u ''key_topics'') = None \<and>
      map_of d (u ''action_steps'') = None \<longrightarrow>
        (\<exists>tut. parse_claude_response lib reply l = Inr tut)) \<and>
     (\<forall>v. map_of d (u ''duration'') = Some v \<and> v \<noteq> JNull \<and> (\<forall>s. v \<noteq> JString s) \<and>
          validate_str lib v = None \<longrightarrow>
        (\<exists>e. parse_claude_response lib reply l = Inl e))"
proof -
  note dec = parse_claude_response_decoded [OF assms, of l]
  have built: "build_tutorial lib (JObject d) l = Inr tut"
    if "parse_claude_response lib reply l = Inr tut" for tut
    using that dec by (simp split: sum.splits)
  show ?thesis
  proof (intro conjI allI impI)
    fix dur topics elems steps
    assume "pydantic_opt_str lib (get d (u ''duration'')) = Inr dur \<and>
        pydantic_str_list lib
          (case get d (u ''key_topics'') of JArray xs \<Rightarrow> JArray xs | _ \<Rightarrow> JArray []) = Inr topics \<and>
        py_iter lib (get_or d (u ''action_steps'') (JArray [])) = Inr elems \<and>
        mapM (parse_step lib) elems = Inr steps"
    then have "build_tutorial lib (JObject d) l =
     Inr \<lparr>summary =
            \<lparr>title = py_str lib (get_or d (u ''title'') (JString (u ''Tutorial''))),
             short_summary = py_str lib (get_or d (u ''short_summary'') (JString [])),
             detailed_summary =
               coerce_detailed_summary lib (get_or d (u ''detailed_summary'') (JString [])),
             duration = dur,
             difficulty_level =
               py_str lib (get_or d (u ''difficulty_level'') (JString (u ''Intermediate''))),
             key_topics = topics\<rparr>,
          action_steps = steps, practice_questions = [], original_language = u ''english'',
          ProcessedTutorial.target_language = l, processing_time = 0,
          original_transcript = None\<rparr>"
      using build_tutorial_exact [of lib d dur topics elems steps l] by blast
    then show "parse_claude_response lib reply l =
     Inr \<lparr>summary =
            \<lparr>title = py_str lib (get_or d (u ''title'') (JString (u ''Tutorial''))),
             short_summary = py_str lib (get_or d (u ''short_summary'') (JString [])),
             detailed_summary =
               coerce_detailed_summary lib (get_or d (u ''detailed_summary'') (JString [])),
             duration = dur,
             difficulty_level =
               py_str lib (get_or d (u ''difficulty_level'') (JString (u ''Intermediate''))),
             key_topics = topics\<rparr>,
          action_steps = steps, practice_questions = [], original_language = u ''english'',
          ProcessedTutorial.target_language = l, processing_time = 0,
          original_transcript = None\<rparr>"
      using dec by simp
  next
    assume f: "(get d (u ''duration'') = JNull \<or> (\<exists>txt. get d (u ''duration'') = JString txt)) \<and>
      (\<forall>xs. get d (u ''key_topics'') = JArray xs \<longrightarrow> (\<exists>ts. xs = map JString ts)) \<and>
      (\<exists>sds. get_or d (u ''action_steps'') (JArray []) = JArray (map JObject sds) \<and>
         (\<forall>sd\<in>set sds.
            (\<exists>n. get_or sd (u ''step_number'') (JInt 1) = JInt n) \<and>
            (get sd (u ''estimated_time'') = JNull \<or>
             (\<exists>txt. get sd (u ''estimated_time'') = JString txt))))"
    then obtain sds where sds: "get_or d (u ''action_steps'') (JArray []) = JArray (map JObject sds)"
      and each: "\<forall>sd\<in>set sds.
            (\<exists>n. get_or sd (u ''step_number'') (JInt 1) = JInt n) \<and>
            (get sd (u ''estimated_time'') = JNull \<or>
             (\<exists>txt. get sd (u ''estimated_time'') = JString txt))"
      by blast
    from f have dur: "get d (u ''duration'') = JNull \<or> (\<exists>txt. get d (u ''duration'') = JString txt)"
      and top: "\<forall>xs. get d (u ''key_topics'') = JArray xs \<longrightarrow> (\<exists>ts. xs = map JString ts)"
      by blast+
    from build_tutorial_prompt_format [OF dur top sds each, of lib l]
    obtain tut where "build_tutorial lib (JObject d) l = Inr tut" by blast
    with dec show "\<exists>tut. parse_claude_response lib reply l = Inr tut" by simp
  next
    fix tut assume "parse_claude_response lib reply l = Inr tut"
    then show "\<exists>elems. py_iter lib (get_or d (u ''action_steps'') (JArray [])) = Inr elems \<and>
          mapM (parse_step lib) elems = Inr (action_steps tut)"
      using built build_tutorial_steps by blast
  next
    fix tut assume "parse_claude_response lib reply l = Inr tut"
    then show "pydantic_opt_str lib (get d (u ''duration'')) = Inr (duration (summary tut))"
      using built build_tutorial_fields(5) by blast
  next
    fix tut assume "parse_claude_response lib reply l = Inr tut"
    then show "pydantic_str_list lib
         (case get d (u ''key_topics'') of JArray xs \<Rightarrow> JArray xs | _ \<Rightarrow> JArray [])
         = Inr (key_topics (summary tut))"
      using built build_tutorial_fields(6) by blast
  next
    fix tut assume "parse_claude_response lib reply l = Inr tut"
    then show "title (summary tut) = py_str lib (get_or d (u ''title'') (JString (u ''Tutorial'')))"
      using built build_tutorial_fields(1) by blast
  next
    fix tut assume "parse_claude_response lib reply l = Inr tut"
    then show "short_summary (summary tut) = py_str lib (get_or d (u ''short_summary'') (JString []))"
      using built build_tutorial_fields(2) by blast
  next
    fix tut assume "parse_claude_response lib reply l = Inr tut"
    then show "detailed_summary (summary tut) =
         coerce_detailed_summary lib (get_or d (u ''detailed_summary'') (JString []))"
      using built build_tutorial_fields(3) by blast
  next
    fix tut assume "parse_claude_response lib reply l = Inr tut"
    then show "difficulty_level (summary tut) =
         py_str lib (get_or d (u ''difficulty_level'') (JString (u ''Intermediate'')))"
      using built build_tutorial_fields(4) by blast
  next
    fix tut assume p: "parse_claude_response lib reply l = Inr tut"
      and "map_of d (u ''duration'') = None"
    then show "duration (summary tut) = None"
      using build_tutorial_fields(5) [OF built [OF p]]
      by (simp add: get_absent pydantic_opt_str_def)
  next
    fix tut assume p: "parse_claude_response lib reply l = Inr tut"
      and "map_of d (u ''difficulty_level'') = None"
    then show "difficulty_level (summary tut) = u ''Intermediate''"
      using build_tutorial_fields(4) [OF built [OF p]]
      by (simp add: get_or_absent py_str_def)
  next
    fix tut assume p: "parse_claude_response lib reply l = Inr tut"
      and "map_of d (u ''key_topics'') = None"
    then show "key_topics (summary tut) = []"
      using build_tutorial_fields(6) [OF built [OF p]]
      by (simp add: get_absent pydantic_str_list_def)
  next
    show "coerce_detailed_summary lib (JString s) = s"
      by (rule coerce_detailed_summary_cases)
  next
    show "coerce_detailed_summary lib (JArray items) =
       join (u ''\<newline>'') (map (\<lambda>item. [8226] @ u '' '' @ py_str lib item) items)"
      by (rule coerce_detailed_summary_cases)
  next
    show "coerce_detailed_summary lib (JObject obj) = py_repr lib (JObject obj)"
      by (rule coerce_detailed_summary_cases)
  next
    assume "map_of d (u ''duration'') = None \<and> map_of d (u ''key_topics'') = None \<and>
      map_of d (u ''action_steps'') = None"
    then show "\<exists>tut. parse_claude_response lib reply l = Inr tut"
      using dec by (simp add: build_tutorial_plain)
  next
    fix v
    assume "map_of d (u ''duration'') = Some v \<and> v \<noteq> JNull \<and> (\<forall>s. v \<noteq> JString s) \<and>
          validate_str lib v = None"
    then show "\<exists>e. parse_claude_response lib reply l = Inl e"
      using dec by (simp add: build_tutorial_duration_rejected)
  qed
qed

lemma stub_decodes:
  "json_loads stub_lib (slice blob_document (py_find 123 blob_document)
      (py_rfind 125 blob_document + 1)) =
     Inr (JObject [(u ''detailed_summary'', JString (u ''First point\<newline>Second point''))])"
  "json_loads stub_lib (slice list_document (py_find 123 list_document)
      (py_rfind 125 list_document + 1)) =
     Inr (JObject [(u ''detailed_summary'',
            JArray [JString (u ''First point''), JString (u ''Second point'')])])"
  "json_loads stub_lib (slice duration_document (py_find 123 duration_document)
      (py_rfind 125 duration_document + 1)) =
     Inr (JObject [(u ''duration'', JObject [(u ''minutes'', JInt 5)])])"
  by (simp_all add: stub_lib_def stub_loads_def blob_document_def list_document_def
      duration_document_def questions_document_def choices_document_def full_document_def py_find_def py_rfind_def slice_def slice_index_def)

lemma full_document_decodes:
  "json_loads stub_lib (slice full_document (py_find 123 full_document)
      (py_rfind 125 full_document + 1)) =
     Inr (JObject
           [(u ''title'', JString (u ''Docker'')),
            (u ''detailed_summary'', JObject [(u ''a'', JInt 1)]),
            (u ''duration'', JString (u ''10 minutes'')),
            (u ''difficulty_level'', JString (u ''Beginner'')),
            (u ''key_topics'', JArray [JString (u ''docker'')]),
            (u ''action_steps'',
             JArray [JObject [(u ''step_number'', JInt 1),
                              (u ''title'', JString (u ''Install'')),
                              (u ''description'', JString (u ''Install Docker'')),
                              (u ''estimated_time'', JString (u ''5 minutes''))]])])"
  by (simp add: stub_lib_def stub_loads_def blob_document_def list_document_def
      duration_document_def questions_document_def choices_document_def full_document_def
      py_find_def py_rfind_def slice_def slice_index_def)

lemma full_document_fields:
  "pydantic_opt_str stub_lib (get
           [(u ''title'', JString (u ''Docker'')),
            (u ''detailed_summary'', JObject [(u ''a'', JInt 1)]),
            (u ''duration'', JString (u ''10 minutes'')),
            (u ''difficulty_level'', JString (u ''Beginner'')),
            (u ''key_topics'', JArray [JString (u ''docker'')]),
            (u ''action_steps'',
             JArray [JObject [(u ''step_number'', JInt 1),
                              (u ''title'', JString (u ''Install'')),
                              (u ''description'', JString (u ''Install Docker'')),
                              (u ''estimated_time'', JString (u ''5 minutes''))]])]
           (u ''duration'')) = Inr (Some (u ''10 minutes'')) \<and>
   pydantic_str_list stub_lib
     (case get
           [(u ''title'', JString (u ''Docker'')),
            (u ''detailed_summary'', JObject [(u ''a'', JInt 1)]),
            (u ''duration'', JString (u ''10 minutes'')),
            (u ''difficulty_level'', JString (u ''Beginner'')),
            (u ''key_topics'', JArray [JString (u ''docker'')]),
            (u ''action_steps'',
             JArray [JObject [(u ''step_number'', JInt 1),
                              (u ''title'', JString (u ''Install'')),
                              (u ''description'', JString (u ''Install Docker'')),
                              (u ''estimated_time'', JString (u ''5 minutes''))]])]
           (u ''key_topics'') of JArray xs \<Rightarrow> JArray xs | _ \<Rightarrow> JArray [])
     = Inr [u ''docker''] \<and>
   py_iter stub_lib (get_or
           [(u ''title'', JString (u ''Docker'')),
            (u ''detailed_summary'', JObject [(u ''a'', JInt 1)]),
            (u ''duration'', JString (u ''10 minutes'')),
            (u ''difficulty_level'', JString (u ''Beginner'')),
            (u ''key_topics'', JArray [JString (u ''docker'')]),
            (u ''action_steps'',
             JArray [JObject [(u ''step_number'', JInt 1),
                              (u ''title'', JString (u ''Install'')),
                              (u ''description'', JString (u ''Install Docker'')),
                              (u ''estimated_time'', JString (u ''5 minutes''))]])]
           (u ''action_steps'') (JArray [])) =
     Inr [JObject [(u ''step_number'', JInt 1),
                   (u ''title'', JString (u ''Install'')),
                   (u ''description'', JString (u ''Install Docker'')),
                   (u ''estimated_time'', JString (u ''5 minutes''))]] \<and>
   mapM (parse_step stub_lib)
     [JObject [(u ''step_number'', JInt 1),
               (u ''title'', JString (u ''Install'')),
               (u ''description'', JString (u ''Install Docker'')),
               (u ''estimated_time'', JString (u ''5 minutes''))]] =
     Inr [\<lparr>step_number = 1, ActionStep.title = u ''Install'',
           description = u ''Install Docker'', estimated_time = Some (u ''5 minutes''),
           completed = False\<rparr>]"
  by (simp add: get_def get_or_def pydantic_opt_str_def pydantic_str_def
      pydantic_str_list_def py_iter_def parse_step_def as_dict_def py_int_def py_str_def)

lemma list_document_fields:
  "pydantic_opt_str stub_lib (get
      [(u ''detailed_summary'',
        JArray [JString (u ''First point''), JString (u ''Second point'')])]
      (u ''duration'')) = Inr None \<and>
   pydantic_str_list stub_lib
     (case get
        [(u ''detailed_summary'',
          JArray [JString (u ''First point''), JString (u ''Second point'')])]
        (u ''key_topics'') of JArray xs \<Rightarrow> JArray xs | _ \<Rightarrow> JArray [])
     = Inr [] \<and>
   py_iter stub_lib (get_or
      [(u ''detailed_summary'',
        JArray [JString (u ''First point''), JString (u ''Second point'')])]
      (u ''action_steps'') (JArray [])) = Inr [] \<and>
   mapM (parse_step stub_lib) [] = Inr []"
  by (simp add: get_def get_or_def pydantic_opt_str_def pydantic_str_list_def py_iter_def)

theorem structuring_coercions_witness:
  "parse_claude_response stub_lib full_document (u ''english'') =
     Inr \<lparr>summary =
            \<lparr>title = u ''Docker'', short_summary = [],
             detailed_summary = u ''{'' @ [39] @ u ''a'' @ [39] @ u '': 1}'',
             duration = Some (u ''10 minutes''), difficulty_level = u ''Beginner'',
             key_topics = [u ''docker'']\<rparr>,
          action_steps =
            [\<lparr>step_number = 1, ActionStep.title = u ''Install'',
              description = u ''Install Docker'', estimated_time = Some (u ''5 minutes''),
              completed = False\<rparr>],
          practice_questions = [], original_language = u ''english'',
          ProcessedTutorial.target_language = u ''english'', processing_time = 0,
          original_transcript = None\<rparr> \<and>
   parse_claude_response stub_lib list_document (u ''english'') =
     Inr \<lparr>summary =
            \<lparr>title = u ''Tutorial'', short_summary = [],
             detailed_summary =
               [8226] @ u '' First point\<newline>'' @ [8226] @ u '' Second point'',
             duration = None, difficulty_level = u ''Intermediate'', key_topics = []\<rparr>,
          action_steps = [], practice_questions = [], original_language = u ''english'',
          ProcessedTutorial.target_language = u ''english'', processing_time = 0,
          original_transcript = None\<rparr> \<and>
   isl (parse_claude_response stub_lib duration_document (u ''english''))"
proof -
  note a = structuring_coercions [OF full_document_decodes, of "u ''english''" "[]" "[]" "[]"]
  note a1 = a [THEN conjunct1, rule_format, OF full_document_fields]
  have 1: "parse_claude_response stub_lib full_document (u ''english'') =
     Inr \<lparr>summary =
            \<lparr>title = u ''Docker'', short_summary = [],
             detailed_summary = u ''{'' @ [39] @ u ''a'' @ [39] @ u '': 1}'',
             duration = Some (u ''10 minutes''), difficulty_level = u ''Beginner'',
             key_topics = [u ''docker'']\<rparr>,
          action_steps =
            [\<lparr>step_number = 1, ActionStep.title = u ''Install'',
              description = u ''Install Docker'', estimated_time = Some (u ''5 minutes''),
              completed = False\<rparr>],
          practice_questions = [], original_language = u ''english'',
          ProcessedTutorial.target_language = u ''english'', processing_time = 0,
          original_transcript = None\<rparr>"
    using a1 by (simp add: get_or_def py_str_def coerce_detailed_summary_def stub_lib_def)
  note b = structuring_coercions [OF stub_decodes(2), of "u ''english''" "[]" "[]" "[]"]
  note b1 = b [THEN conjunct1, rule_format, OF list_document_fields]
  have 2: "parse_claude_response stub_lib list_document (u ''english'') =
     Inr \<lparr>summary =
            \<lparr>title = u ''Tutorial'', short_summary = [],
             detailed_summary =
               [8226] @ u '' First point\<newline>'' @ [8226] @ u '' Second point'',
             duration = None, difficulty_level = u ''Intermediate'', key_topics = []\<rparr>,
          action_steps = [], practice_questions = [], original_language = u ''english'',
          ProcessedTutorial.target_language = u ''english'', processing_time = 0,
          original_transcript = None\<rparr>"
    using b1 by (simp add: get_or_def py_str_def coerce_detailed_summary_def)
  note c = structuring_coercions [OF stub_decodes(3), of "u ''english''" "[]" "[]" "[]"]
  note c8 = c [THEN conjunct2, THEN conjunct2, THEN conjunct2, THEN conjunct2, THEN conjunct2,
      THEN conjunct2, THEN conjunct2]
  have "validate_str stub_lib (JObject [(u ''minutes'', JInt 5)]) = None"
    by (simp add: stub_lib_def)
  with c8 have "\<exists>e. parse_claude_response stub_lib duration_document (u ''english'') = Inl e"
    by simp
  then have 3: "isl (parse_claude_response stub_lib duration_document (u ''english''))"
    by auto
  show ?thesis by (rule conjI, rule 1, rule conjI, rule 2, rule 3)
qed

text \<open>
  C8 as stated fails: a detailed summary that arrives as one string of two lines is
  stored as that one string; it is not split into its two lines.
\<close>

theorem blob_kept_counterexample:
  "parse_claude_response stub_lib blob_document (u ''english'') =
     Inr \<lparr>summary =
            \<lparr>title = u ''Tutorial'', short_summary = [],
             detailed_summary = u ''First point\<newline>Second point'',
             duration = None, difficulty_level = u ''Intermediate'', key_topics = []\<rparr>,
          action_steps = [], practice_questions = [], original_language = u ''english'',
          ProcessedTutorial.target_language = u ''english'', processing_time = 0,
          original_transcript = None\<rparr> \<and>
   split_on 10 (u ''First point\<newline>Second point'') = [u ''First point'', u ''Second point'']"
proof -
  have "build_tutorial stub_lib
      (JObject [(u ''detailed_summary'', JString (u ''First point\<newline>Second point''))])
      (u ''english'') =
     Inr \<lparr>summary =
            \<lparr>title = u ''Tutorial'', short_summary = [],
             detailed_summary = u ''First point\<newline>Second point'',
             duration = None, difficulty_level = u ''Intermediate'', key_topics = []\<rparr>,
          action_steps = [], practice_questions = [], original_language = u ''english'',
          ProcessedTutorial.target_language = u ''english'', processing_time = 0,
          original_transcript = None\<rparr>"
    by (simp add: build_tutorial_def as_dict_def get_def get_or_def pydantic_opt_str_def
        pydantic_str_list_def py_iter_def py_str_def coerce_detailed_summary_def)
  then have "parse_claude_response stub_lib blob_document (u ''english'') =
     Inr \<lparr>summary =
            \<lparr>title = u ''Tutorial'', short_summary = [],
             detailed_summary = u ''First point\<newline>Second point'',
             duration = None, difficulty_level = u ''Intermediate'', key_topics = []\<rparr>,
          action_steps = [], practice_questions = [], original_language = u ''english'',
          ProcessedTutorial.target_language = u ''english'', processing_time = 0,
          original_transcript = None\<rparr>"
    using parse_claude_response_decoded [OF stub_decodes(1), of "u ''english''"] by simp
  moreover have "split_on 10 (u ''First point\<newline>Second point'') =
      [u ''First point'', u ''Second point'']"
    by (simp add: split_on_def)
  ultimately show ?thesis by blast
qed

subsection \<open>The options of a decoded question\<close>

lemma mapM_nth:
  assumes "mapM f xs = Inr ys"
  shows "length ys = length xs \<and> (\<forall>i<length xs. f (xs ! i) = Inr (ys ! i))"
  using assms
proof (induction xs arbitrary: ys)
  case Nil
  then show ?case by simp
next
  case (Cons x xs)
  from Cons.prems obtain y ys' where y: "f x = Inr y" and ys': "mapM f xs = Inr ys'"
      and ys: "ys = y # ys'"
    by (auto simp: bind_exn_Inr)
  from Cons.IH [OF ys'] have "length ys' = length xs"
    and nth: "\<forall>i<length xs. f (xs ! i) = Inr (ys' ! i)" by auto
  then show ?case using y ys by (auto simp: nth_Cons split: nat.splits)
qed

lemma parse_question_options:
  assumes "parse_question lib (JObject q) = Inr pq" and "\<not> truthy lib (get q (u ''options''))"
  shows "options pq = None"
  using assms by (auto simp: parse_question_def as_dict_def bind_exn_Inr)

lemma parse_question_type:
  assumes "parse_question lib (JObject q) = Inr pq"
  shows "question_type pq =
     py_str lib (get_or q (u ''question_type'') (JString (u ''multiple_choice'')))"
  using assms by (auto simp: parse_question_def as_dict_def bind_exn_Inr)

lemma parse_question_encode:
  assumes "options pq = None"
  shows "parse_question lib (encode_question pq) = Inr pq"
proof -
  have "parse_question lib (encode_question pq) =
      Inr \<lparr>question_id = question_id pq, question = question pq,
           question_type = question_type pq, options = None,
           correct_answer = correct_answer pq, explanation = explanation pq,
           difficulty = difficulty pq, topic = topic pq\<rparr>"
    using assms
    by (simp add: parse_question_def encode_question_def as_dict_def get_or_def get_def
        py_int_def py_str_def truthy_def)
  also have "\<dots> = Inr pq" using assms by (cases pq) simp
  finally show ?thesis .
qed

lemma parse_questions_response_decoded:
  assumes "py_find 123 (clean_json_response reply) \<noteq> -1"
    and "py_rfind 125 (clean_json_response reply) + 1 \<noteq> 0"
    and "json_loads lib (slice (clean_json_response reply)
           (py_find 123 (clean_json_response reply))
           (py_rfind 125 (clean_json_response reply) + 1)) = Inr (JObject d)"
    and "map_of d (u ''questions'') = Some (JArray items)"
    and "mapM (parse_question lib) items = Inr pqs"
    and "pqs \<noteq> []"
  shows "parse_questions_response lib self reply = pqs"
  using assms
  by (simp add: parse_questions_response_def Let_def parse_questions_data_def as_dict_def
      get_or_def py_iter_def)

lemma parse_questions_response_item:
  assumes "py_find 123 (clean_json_response reply) \<noteq> -1"
    and "py_rfind 125 (clean_json_response reply) + 1 \<noteq> 0"
    and "json_loads lib (slice (clean_json_response reply)
           (py_find 123 (clean_json_response reply))
           (py_rfind 125 (clean_json_response reply) + 1)) = Inr (JObject d)"
    and "map_of d (u ''questions'') = Some (JArray items)"
    and "mapM (parse_question lib) items = Inr pqs"
    and "i < length items" and "items ! i = JObject q"
  shows "parse_questions_response lib self reply = pqs"
    and "parse_question lib (JObject q) = Inr (pqs ! i)"
proof -
  from mapM_nth [OF assms(5)] assms(6,7)
  have len: "length pqs = length items" and pq: "parse_question lib (JObject q) = Inr (pqs ! i)"
    by auto
  from len assms(6) have "pqs \<noteq> []" by auto
  with assms(1-5) show "parse_questions_response lib self reply = pqs"
    by (rule parse_questions_response_decoded)
  from pq show "parse_question lib (JObject q) = Inr (pqs ! i)" .
qed

lemma clean_questions_document: "clean_json_response questions_document = questions_document"
  by (simp add: questions_document_def clean_json_response_def strip_fences_def
      sub_lit_ws.simps isspace_def control_char_def split_on_def clean_lines_def structural_def
      strip_def)

lemma clean_choices_document: "clean_json_response choices_document = choices_document"
  by (simp add: choices_document_def clean_json_response_def strip_fences_def
      sub_lit_ws.simps isspace_def control_char_def split_on_def clean_lines_def structural_def
      strip_def)

lemma question_documents_decode:
  "json_loads stub_lib (slice questions_document (py_find 123 questions_document)
      (py_rfind 125 questions_document + 1)) =
     Inr (JObject [(u ''questions'',
            JArray [JObject [(u ''question_type'', JString (u ''short_answer'')),
                             (u ''options'', JNull)]])])"
  "json_loads stub_lib (slice choices_document (py_find 123 choices_document)
      (py_rfind 125 choices_document + 1)) =
     Inr (JObject [(u ''questions'',
            JArray [JObject [(u ''question_type'', JString (u ''multiple_choice'')),
                             (u ''options'', JArray [])]])])"
  by (simp_all add: stub_lib_def stub_loads_def blob_document_def list_document_def
      duration_document_def questions_document_def choices_document_def full_document_def py_find_def
      py_rfind_def slice_def slice_index_def)

lemma question_documents_braces:
  "py_find 123 questions_document \<noteq> -1" "py_rfind 125 questions_document + 1 \<noteq> 0"
  "py_find 123 choices_document \<noteq> -1" "py_rfind 125 choices_document + 1 \<noteq> 0"
  by (simp_all add: questions_document_def choices_document_def full_document_def py_find_def py_rfind_def)

text \<open>
  C7: when the questions reply is located and decodes to an object whose \<open>questions\<close>
  are a list of elements that all decode, the decoder returns the decoded questions;
  an element whose \<open>options\<close> is absent or \<open>null\<close> gives a PracticeQuestion with options
  \<open>None\<close>. Encoding that record writes \<open>null\<close> for the options, and decoding the
  encoding gives the same record back.
\<close>

theorem absent_options_round_trip:
  assumes "py_find 123 (clean_json_response reply) \<noteq> -1"
    and "py_rfind 125 (clean_json_response reply) + 1 \<noteq> 0"
    and "json_loads lib (slice (clean_json_response reply)
           (py_find 123 (clean_json_response reply))
           (py_rfind 125 (clean_json_response reply) + 1)) = Inr (JObject d)"
    and "map_of d (u ''questions'') = Some (JArray items)"
    and "mapM (parse_question lib) items = Inr pqs"
    and "i < length items" and "items ! i = JObject q"
    and "map_of q (u ''options'') = None \<or> map_of q (u ''options'') = Some JNull"
  shows "parse_questions_response lib self reply = pqs \<and>
     options (pqs ! i) = None \<and>
     (\<exists>fields. encode_question (pqs ! i) = JObject fields \<and>
        map_of fields (u ''options'') = Some JNull) \<and>
     parse_question lib (encode_question (pqs ! i)) = Inr (pqs ! i)"
proof -
  note item = parse_questions_response_item [OF assms(1-7)]
  from assms(8) have "get q (u ''options'') = JNull" by (auto simp: get_def)
  then have "\<not> truthy lib (get q (u ''options''))" by (simp add: truthy_def)
  with item(2) have none: "options (pqs ! i) = None" by (rule parse_question_options)
  then have "\<exists>fields. encode_question (pqs ! i) = JObject fields \<and>
        map_of fields (u ''options'') = Some JNull"
    by (simp add: encode_question_def)
  with item(1) none parse_question_encode [OF none] show ?thesis by blast
qed

theorem absent_options_round_trip_witness:
  "parse_questions_response stub_lib docker_service questions_document =
     [\<lparr>question_id = 1, question = [], question_type = u ''short_answer'', options = None,
       correct_answer = [], explanation = [], difficulty = u ''medium'',
       topic = u ''General''\<rparr>]"
proof -
  have all: "mapM (parse_question stub_lib)
      [JObject [(u ''question_type'', JString (u ''short_answer'')), (u ''options'', JNull)]] =
     Inr [\<lparr>question_id = 1, question = [], question_type = u ''short_answer'', options = None,
       correct_answer = [], explanation = [], difficulty = u ''medium'',
       topic = u ''General''\<rparr>]"
    by (simp add: parse_question_def as_dict_def py_int_def get_or_def get_def py_str_def
        truthy_def)
  from absent_options_round_trip [of questions_document stub_lib _
      "[JObject [(u ''question_type'', JString (u ''short_answer'')), (u ''options'', JNull)]]"
      _ 0 "[(u ''question_type'', JString (u ''short_answer'')), (u ''options'', JNull)]"
      docker_service, OF _ _ _ _ all]
    question_documents_decode(1) question_documents_braces(1,2)
  show ?thesis by (simp add: clean_questions_document)
qed

text \<open>
  C10: in the same decoding, an element whose \<open>options\<close> is \<open>null\<close>, an empty list, an
  empty string or any other false value gives a PracticeQuestion with options \<open>None\<close>,
  whatever its \<open>question_type\<close> is: the type is the element's own, \<open>multiple_choice\<close>
  included.
\<close>

theorem falsy_options_become_none:
  assumes "py_find 123 (clean_json_response reply) \<noteq> -1"
    and "py_rfind 125 (clean_json_response reply) + 1 \<noteq> 0"
    and "json_loads lib (slice (clean_json_response reply)
           (py_find 123 (clean_json_response reply))
           (py_rfind 125 (clean_json_response reply) + 1)) = Inr (JObject d)"
    and "map_of d (u ''questions'') = Some (JArray items)"
    and "mapM (parse_question lib) items = Inr pqs"
    and "i < length items" and "items ! i = JObject q"
    and "get q (u ''options'') = JNull \<or> get q (u ''options'') = JArray []
         \<or> get q (u ''options'') = JString [] \<or> \<not> truthy lib (get q (u ''options''))"
  shows "parse_questions_response lib self reply = pqs \<and>
     options (pqs ! i) = None \<and>
     question_type (pqs ! i) =
       py_str lib (get_or q (u ''question_type'') (JString (u ''multiple_choice'')))"
proof -
  note item = parse_questions_response_item [OF assms(1-7)]
  from assms(8) have "\<not> truthy lib (get q (u ''options''))"
    by (auto simp: truthy_def)
  with item(2) have "options (pqs ! i) = None" by (rule parse_question_options)
  with item(1) parse_question_type [OF item(2)] show ?thesis by blast
qed

theorem falsy_options_become_none_witness:
  "parse_questions_response stub_lib docker_service choices_document =
     [\<lparr>question_id = 1, question = [], question_type = u ''multiple_choice'', options = None,
       correct_answer = [], explanation = [], difficulty = u ''medium'',
       topic = u ''General''\<rparr>]"
proof -
  have all: "mapM (parse_question stub_lib)
      [JObject [(u ''question_type'', JString (u ''multiple_choice'')), (u ''options'', JArray [])]] =
     Inr [\<lparr>question_id = 1, question = [], question_type = u ''multiple_choice'', options = None,
       correct_answer = [], explanation = [], difficulty = u ''medium'',
       topic = u ''General''\<rparr>]"
    by (simp add: parse_question_def as_dict_def py_int_def get_or_def get_def py_str_def
        truthy_def)
  from falsy_options_become_none [of choices_document stub_lib _
      "[JObject [(u ''question_type'', JString (u ''multiple_choice'')), (u ''options'', JArray [])]]"
      _ 0 "[(u ''question_type'', JString (u ''multiple_choice'')), (u ''options'', JArray [])]"
      docker_service, OF _ _ _ _ all]
    question_documents_decode(2) question_documents_braces(3,4)
  show ?thesis by (simp add: clean_choices_document get_def)
qed

subsection \<open>The tutorial that processing returns\<close>

text \<open>
  C1 (as amended): for every transcript and every behaviour of the model call,
  \<open>process_tutorial\<close> returns a tutorial with at least one practice question, which
  holds the transcript. When the structuring call raises or its reply does not decode,
  the tutorial is the fallback one: its title and detailed summary are not empty and it
  has 2 action steps. When the reply decodes, the summary and the action steps are the
  decoded ones: for a reply whose payload is an object with a duration, key topics and
  action steps that pass the checks of the schema, the summary holds the stringified
  title, short summary and difficulty of the payload, its coerced detailed summary, its
  duration and its key topics, and the action steps are one per element of the payload's
  \<open>action_steps\<close>, in the order of the payload, each decoded from its element. A step
  that is an object is decoded to the integer of its \<open>step_number\<close> (1 when missing),
  its stringified \<open>title\<close> and \<open>description\<close> (empty when missing), its
  \<open>estimated_time\<close>, and is not completed.
\<close>

theorem process_tutorial_guarantees:
  "practice_questions (fst (process_tutorial lib call self t l)) \<noteq> [] \<and>
   original_transcript (fst (process_tutorial lib call self t l)) = Some t \<and>
   (\<forall>e. bind_exn (call (create_processing_prompt t l)) (\<lambda>r. parse_claude_response lib r l) = Inl e \<longrightarrow>
      fst (process_tutorial lib call self t l) = create_fallback_tutorial t l [] \<and>
      title (summary (fst (process_tutorial lib call self t l))) \<noteq> [] \<and>
      detailed_summary (summary (fst (process_tutorial lib call self t l))) \<noteq> [] \<and>
      length (action_steps (fst (process_tutorial lib call self t l))) = 2) \<and>
   (\<forall>tut. bind_exn (call (create_processing_prompt t l)) (\<lambda>r. parse_claude_response lib r l) = Inr tut \<longrightarrow>
      summary (fst (process_tutorial lib call self t l)) = summary tut \<and>
      action_steps (fst (process_tutorial lib call self t l)) = action_steps tut) \<and>
   (\<forall>reply d dur topics elems steps.
      call (create_processing_prompt t l) = Inr reply \<and>
      json_loads lib (slice reply (py_find 123 reply) (py_rfind 125 reply + 1)) = Inr (JObject d) \<and>
      pydantic_opt_str lib (get d (u ''duration'')) = Inr dur \<and>
      pydantic_str_list lib
        (case get d (u ''key_topics'') of JArray xs \<Rightarrow> JArray xs | _ \<Rightarrow> JArray []) = Inr topics \<and>
      py_iter lib (get_or d (u ''action_steps'') (JArray [])) = Inr elems \<and>
      mapM (parse_step lib) elems = Inr steps \<longrightarrow>
      summary (fst (process_tutorial lib call self t l)) =
        \<lparr>title = py_str lib (get_or d (u ''title'') (JString (u ''Tutorial''))),
         short_summary = py_str lib (get_or d (u ''short_summary'') (JString [])),
         detailed_summary =
           coerce_detailed_summary lib (get_or d (u ''detailed_summary'') (JString [])),
         duration = dur,
         difficulty_level =
           py_str lib (get_or d (u ''difficulty_level'') (JString (u ''Intermediate''))),
         key_topics = topics\<rparr> \<and>
      action_steps (fst (process_tutorial lib call self t l)) = steps \<and>
      length (action_steps (fst (process_tutorial lib call self t l))) = length elems \<and>
      (\<forall>i<length elems.
         parse_step lib (elems ! i) =
           Inr (action_steps (fst (process_tutorial lib call self t l)) ! i))) \<and>
   (\<forall>sd n et.
      py_int lib (get_or sd (u ''step_number'') (JInt 1)) = Inr n \<and>
      pydantic_opt_str lib (get sd (u ''estimated_time'')) = Inr et \<longrightarrow>
      parse_step lib (JObject sd) =
        Inr \<lparr>step_number = n,
             ActionStep.title = py_str lib (get_or sd (u ''title'') (JString [])),
             description = py_str lib (get_or sd (u ''description'') (JString [])),
             estimated_time = et,
             completed = False\<rparr>)"
proof -
  note old = process_tutorial_outcome [of lib call self t l]
  note A = old [THEN conjunct1]
  note B = old [THEN conjunct2, THEN conjunct1]
  note C = old [THEN conjunct2, THEN conjunct2, THEN conjunct1]
  note D = old [THEN conjunct2, THEN conjunct2, THEN conjunct2]
  have E: "\<forall>reply d dur topics elems steps.
      call (create_processing_prompt t l) = Inr reply \<and>
      json_loads lib (slice reply (py_find 123 reply) (py_rfind 125 reply + 1)) = Inr (JObject d) \<and>
      pydantic_opt_str lib (get d (u ''duration'')) = Inr dur \<and>
      pydantic_str_list lib
        (case get d (u ''key_topics'') of JArray xs \<Rightarrow> JArray xs | _ \<Rightarrow> JArray []) = Inr topics \<and>
      py_iter lib (get_or d (u ''action_steps'') (JArray [])) = Inr elems \<and>
      mapM (parse_step lib) elems = Inr steps \<longrightarrow>
      summary (fst (process_tutorial lib call self t l)) =
        \<lparr>title = py_str lib (get_or d (u ''title'') (JString (u ''Tutorial''))),
         short_summary = py_str lib (get_or d (u ''short_summary'') (JString [])),
         detailed_summary =
           coerce_detailed_summary lib (get_or d (u ''detailed_summary'') (JString [])),
         duration = dur,
         difficulty_level =
           py_str lib (get_or d (u ''difficulty_level'') (JString (u ''Intermediate''))),
         key_topics = topics\<rparr> \<and>
      action_steps (fst (process_tutorial lib call self t l)) = steps \<and>
      length (action_steps (fst (process_tutorial lib call self t l))) = length elems \<and>
      (\<forall>i<length elems.
         parse_step lib (elems ! i) =
           Inr (action_steps (fst (process_tutorial lib call self t l)) ! i))"
  proof (intro allI impI, elim conjE)
    fix reply d dur topics elems steps
    assume c: "call (create_processing_prompt t l) = Inr reply"
      and dec: "json_loads lib (slice reply (py_find 123 reply) (py_rfind 125 reply + 1)) = Inr (JObject d)"
      and v1: "pydantic_opt_str lib (get d (u ''duration'')) = Inr dur"
      and v2: "pydantic_str_list lib
        (case get d (u ''key_topics'') of JArray xs \<Rightarrow> JArray xs | _ \<Rightarrow> JArray []) = Inr topics"
      and v3: "py_iter lib (get_or d (u ''action_steps'') (JArray [])) = Inr elems"
      and v4: "mapM (parse_step lib) elems = Inr steps"
    let ?tut = "\<lparr>summary =
            \<lparr>title = py_str lib (get_or d (u ''title'') (JString (u ''Tutorial''))),
             short_summary = py_str lib (get_or d (u ''short_summary'') (JString [])),
             detailed_summary =
               coerce_detailed_summary lib (get_or d (u ''detailed_summary'') (JString [])),
             duration = dur,
             difficulty_level =
               py_str lib (get_or d (u ''difficulty_level'') (JString (u ''Intermediate''))),
             key_topics = topics\<rparr>,
          action_steps = steps, practice_questions = [], original_language = u ''english'',
          ProcessedTutorial.target_language = l, processing_time = 0,
          original_transcript = None\<rparr>"
    have "build_tutorial lib (JObject d) l = Inr ?tut"
      by (rule build_tutorial_exact [OF v1 v2 v3 v4])
    then have "parse_claude_response lib reply l = Inr ?tut"
      using parse_claude_response_decoded [OF dec, of l] by simp
    then have "bind_exn (call (create_processing_prompt t l))
        (\<lambda>r. parse_claude_response lib r l) = Inr ?tut"
      using c by simp
    from process_tutorial_success [where call = call and t = t and l = l and lib = lib
        and self = self, OF this]
    have "summary (fst (process_tutorial lib call self t l)) = summary ?tut"
      and s: "action_steps (fst (process_tutorial lib call self t l)) = steps"
      by simp_all
    moreover from mapM_nth [OF v4]
    have "length steps = length elems"
      and "\<forall>i<length elems. parse_step lib (elems ! i) = Inr (steps ! i)"
      by simp_all
    ultimately show "summary (fst (process_tutorial lib call self t l)) =
        \<lparr>title = py_str lib (get_or d (u ''title'') (JString (u ''Tutorial''))),
         short_summary = py_str lib (get_or d (u ''short_summary'') (JString [])),
         detailed_summary =
           coerce_detailed_summary lib (get_or d (u ''detailed_summary'') (JString [])),
         duration = dur,
         difficulty_level =
           py_str lib (get_or d (u ''difficulty_level'') (JString (u ''Intermediate''))),
         key_topics = topics\<rparr> \<and>
      action_steps (fst (process_tutorial lib call self t l)) = steps \<and>
      length (action_steps (fst (process_tutorial lib call self t l))) = length elems \<and>
      (\<forall>i<length elems.
         parse_step lib (elems ! i) =
           Inr (action_steps (fst (process_tutorial lib call self t l)) ! i))"
      by simp
  qed
  have F: "\<forall>sd n et.
      py_int lib (get_or sd (u ''step_number'') (JInt 1)) = Inr n \<and>
      pydantic_opt_str lib (get sd (u ''estimated_time'')) = Inr et \<longrightarrow>
      parse_step lib (JObject sd) =
        Inr \<lparr>step_number = n,
             ActionStep.title = py_str lib (get_or sd (u ''title'') (JString [])),
             description = py_str lib (get_or sd (u ''description'') (JString [])),
             estimated_time = et,
             completed = False\<rparr>"
    by (simp add: parse_step_exact)
  show ?thesis
    by (rule conjI, rule A, rule conjI, rule B, rule conjI, rule C, rule conjI, rule D,
        rule conjI, rule E, rule F)
qed

lemma full_document_call_reply:
  "full_document_call (create_processing_prompt docker_transcript (u ''english'')) =
     Inr full_document"
  by (simp add: full_document_call_def)

theorem process_tutorial_guarantees_witness:
  "practice_questions (fst (process_tutorial stub_lib full_document_call
      \<lparr>current_transcript = []\<rparr> docker_transcript (u ''english''))) \<noteq> [] \<and>
   summary (fst (process_tutorial stub_lib full_document_call
      \<lparr>current_transcript = []\<rparr> docker_transcript (u ''english''))) =
     \<lparr>title = u ''Docker'', short_summary = [],
      detailed_summary = u ''{'' @ [39] @ u ''a'' @ [39] @ u '': 1}'',
      duration = Some (u ''10 minutes''), difficulty_level = u ''Beginner'',
      key_topics = [u ''docker'']\<rparr> \<and>
   action_steps (fst (process_tutorial stub_lib full_document_call
      \<lparr>current_transcript = []\<rparr> docker_transcript (u ''english''))) =
     [\<lparr>step_number = 1, ActionStep.title = u ''Install'',
       description = u ''Install Docker'', estimated_time = Some (u ''5 minutes''),
       completed = False\<rparr>] \<and>
   summary (fst (process_tutorial stub_lib empty_object_call
      \<lparr>current_transcript = []\<rparr> docker_transcript (u ''english''))) =
     \<lparr>title = u ''Tutorial'', short_summary = [], detailed_summary = [],
      duration = None, difficulty_level = u ''Intermediate'', key_topics = []\<rparr> \<and>
   length (action_steps (fst (process_tutorial stub_lib failing_call
      \<lparr>current_transcript = []\<rparr> docker_transcript (u ''english'')))) = 2"
proof -
  note g = process_tutorial_guarantees [of stub_lib full_document_call
      "\<lparr>current_transcript = []\<rparr>" docker_transcript "u ''english''"]
  note 1 = g [THEN conjunct1]
  note payload = conjI [OF full_document_call_reply
      conjI [OF full_document_decodes full_document_fields]]
  note e = g [THEN conjunct2, THEN conjunct2, THEN conjunct2, THEN conjunct2, THEN conjunct1,
      rule_format, OF payload]
  have 2: "summary (fst (process_tutorial stub_lib full_document_call
      \<lparr>current_transcript = []\<rparr> docker_transcript (u ''english''))) =
     \<lparr>title = u ''Docker'', short_summary = [],
      detailed_summary = u ''{'' @ [39] @ u ''a'' @ [39] @ u '': 1}'',
      duration = Some (u ''10 minutes''), difficulty_level = u ''Beginner'',
      key_topics = [u ''docker'']\<rparr>"
    using e [THEN conjunct1]
    by (simp add: get_or_def py_str_def coerce_detailed_summary_def stub_lib_def)
  note 3 = e [THEN conjunct2, THEN conjunct1]
  note h = process_tutorial_guarantees [of stub_lib empty_object_call
      "\<lparr>current_transcript = []\<rparr>" docker_transcript "u ''english''"]
  note h4 = h [THEN conjunct2, THEN conjunct2, THEN conjunct2, THEN conjunct1, rule_format,
      OF empty_object_structure, THEN conjunct1]
  have 4: "summary (fst (process_tutorial stub_lib empty_object_call
      \<lparr>current_transcript = []\<rparr> docker_transcript (u ''english''))) =
     \<lparr>title = u ''Tutorial'', short_summary = [], detailed_summary = [],
      duration = None, difficulty_level = u ''Intermediate'', key_topics = []\<rparr>"
    using h4 by simp
  note k = process_tutorial_guarantees [of stub_lib failing_call
      "\<lparr>current_transcript = []\<rparr>" docker_transcript "u ''english''"]
  have "bind_exn (failing_call (create_processing_prompt docker_transcript (u ''english'')))
      (\<lambda>r. parse_claude_response stub_lib r (u ''english'')) =
      Inl (Raised Exception (u ''timed out''))"
    by (simp add: failing_call_def)
  note 5 = k [THEN conjunct2, THEN conjunct2, THEN conjunct1, rule_format, OF this,
      THEN conjunct2, THEN conjunct2, THEN conjunct2]
  show ?thesis
    by (rule conjI, rule 1, rule conjI, rule 2, rule conjI, rule 3, rule conjI, rule 4, rule 5)
qed

text \<open>
  C1 as stated fails: for a transcript of 71 characters and a model that replies \<open>{}\<close>,
  the tutorial has an empty detailed summary and no action step.
\<close>

theorem process_tutorial_empty_counterexample:
  "50 \<le> length docker_transcript \<and>
   detailed_summary (summary (fst (process_tutorial stub_lib empty_object_call
      \<lparr>current_transcript = []\<rparr> docker_transcript (u ''english'')))) = [] \<and>
   action_steps (fst (process_tutorial stub_lib empty_object_call
      \<lparr>current_transcript = []\<rparr> docker_transcript (u ''english''))) = []"
  using process_tutorial_success [where call = empty_object_call and t = docker_transcript
      and l = "u ''english''" and lib = stub_lib and self = "\<lparr>current_transcript = []\<rparr>",
      OF empty_object_structure]
  by (simp add: docker_length)

end
